theory Spec2Isabelle
  imports Complex_Main
begin

section \<open>Python values used by \<open>pymatviz/utils/plotting.py\<close>\<close>

subsection \<open>Exceptions\<close>

text \<open>
  Every \<open>raise\<close> of the module, and every exception of a builtin it calls, is a value of
  \<open>error\<close>; a function that can raise returns \<open>error + 'a\<close> with \<open>Inl\<close> for the exception.
\<close>

datatype error = TypeError | ValueError | IndexError | AttributeError | ZeroDivisionError
  | OverflowError

definition bind_res :: "error + 'a \<Rightarrow> ('a \<Rightarrow> error + 'b) \<Rightarrow> error + 'b" where
  "bind_res m f = (case m of Inl e \<Rightarrow> Inl e | Inr x \<Rightarrow> f x)"

subsection \<open>Floats: IEEE 754 binary64, round to nearest, ties to even\<close>

text \<open>
  A Python \<open>float\<close> is a binary64 number. A finite float is represented by the rational it
  denotes (\<open>-0.0\<close> and \<open>0.0\<close> are identified, as Python's \<open>==\<close> does); every arithmetic
  operation computes the exact rational result and rounds it with \<open>fl\<close>.
\<close>

datatype float64 = Fin rat | PInf | NInf | NaN

fun bit_length :: "nat \<Rightarrow> nat" where
  "bit_length n = (if n = 0 then 0 else Suc (bit_length (n div 2)))"

declare bit_length.simps [simp del]

definition pow2 :: "int \<Rightarrow> rat" where
  "pow2 e = (if 0 \<le> e then 2 ^ nat e else 1 / 2 ^ nat (- e))"

text \<open>\<open>ilog2 q\<close> is the exponent \<open>e\<close> with \<open>2^e \<le> q < 2^(e+1)\<close>, for \<open>q > 0\<close>.\<close>

definition ilog2 :: "rat \<Rightarrow> int" where
  "ilog2 q = (if 1 \<le> q then int (bit_length (nat \<lfloor>q\<rfloor>)) - 1
              else - int (bit_length (nat (\<lceil>1 / q\<rceil> - 1))))"

definition round_even :: "rat \<Rightarrow> int" where
  "round_even q = (let f = \<lfloor>q\<rfloor>; d = q - of_int f in
     if d < 1 / 2 then f else if 1 / 2 < d then f + 1 else if even f then f else f + 1)"

text \<open>
  Rounding of an exact result to binary64: 53 significant bits, least exponent \<open>-1022\<close>
  (below it the spacing stays \<open>2^-1074\<close>: subnormal numbers), overflow to infinity from
  \<open>2^1024\<close> on.
\<close>

definition fl :: "rat \<Rightarrow> float64" where
  "fl q = (if q = 0 then Fin 0 else
     let e = max (ilog2 \<bar>q\<bar>) (- 1022);
         u = pow2 (e - 52);
         r = of_int (round_even (q / u)) * u
     in if pow2 1024 \<le> \<bar>r\<bar> then (if 0 < q then PInf else NInf) else Fin r)"

definition is_neg :: "float64 \<Rightarrow> bool" where
  "is_neg x = (case x of Fin q \<Rightarrow> q < 0 | NInf \<Rightarrow> True | _ \<Rightarrow> False)"

definition is_inf :: "float64 \<Rightarrow> bool" where
  "is_inf x = (x = PInf \<or> x = NInf)"

text \<open>Python's \<open>a * b\<close>, \<open>a + b\<close> and \<open>a > b\<close> on floats.\<close>

definition fmul :: "float64 \<Rightarrow> float64 \<Rightarrow> float64" where
  "fmul a b = (case (a, b) of
       (Fin x, Fin y) \<Rightarrow> fl (x * y)
     | _ \<Rightarrow> if a = NaN \<or> b = NaN \<or> a = Fin 0 \<or> b = Fin 0 then NaN
            else if is_neg a = is_neg b then PInf else NInf)"

definition fadd :: "float64 \<Rightarrow> float64 \<Rightarrow> float64" where
  "fadd a b = (case (a, b) of
       (Fin x, Fin y) \<Rightarrow> fl (x + y)
     | _ \<Rightarrow> if a = NaN \<or> b = NaN \<or> (is_inf a \<and> is_inf b \<and> a \<noteq> b) then NaN
            else if is_inf a then a else b)"

definition fgt :: "float64 \<Rightarrow> float64 \<Rightarrow> bool" where
  "fgt a b = (case (a, b) of
       (Fin x, Fin y) \<Rightarrow> y < x
     | (NaN, _) \<Rightarrow> False
     | (_, NaN) \<Rightarrow> False
     | (PInf, _) \<Rightarrow> b \<noteq> PInf
     | (_, NInf) \<Rightarrow> a \<noteq> NInf
     | _ \<Rightarrow> False)"

text \<open>
  Python's \<open>a / b\<close> on floats raises \<open>ZeroDivisionError\<close> for a zero divisor; \<open>fquot\<close> is
  the IEEE quotient for every other divisor.
\<close>

definition fquot :: "float64 \<Rightarrow> float64 \<Rightarrow> float64" where
  "fquot a b = (case (a, b) of
       (Fin x, Fin y) \<Rightarrow> fl (x / y)
     | (Fin x, _) \<Rightarrow> if b = NaN then NaN else Fin 0
     | _ \<Rightarrow> if a = NaN \<or> b = NaN \<or> is_inf b then NaN
            else if is_neg a = is_neg b then PInf else NInf)"

definition fdiv :: "float64 \<Rightarrow> float64 \<Rightarrow> error + float64" where
  "fdiv a b = (if b = Fin 0 then Inl ZeroDivisionError else Inr (fquot a b))"

text \<open>
  Python's \<open>10 ** v\<close> for a float \<open>v\<close> is the float power \<open>pow(10.0, v)\<close>. It is
  modelled as the real power of ten rounded to binary64 in the same way as \<open>fl\<close> rounds
  a rational (a C library may differ from this in the last bit of an inexact result);
  Python raises \<open>OverflowError\<close>, here \<open>None\<close>, when the result is too large, and returns
  \<open>0.0\<close> when it is too small. \<open>fl_real\<close> is \<open>fl\<close> on a real number.
\<close>

definition round_even_real :: "real \<Rightarrow> int" where
  "round_even_real x = (let f = \<lfloor>x\<rfloor>; d = x - of_int f in
     if d < 1 / 2 then f else if 1 / 2 < d then f + 1 else if even f then f else f + 1)"

definition fl_real :: "real \<Rightarrow> float64" where
  "fl_real x = (if x = 0 then Fin 0 else
     let e = max \<lfloor>log 2 \<bar>x\<bar>\<rfloor> (- 1022);
         r = of_int (round_even_real (x / 2 powi (e - 52))) * pow2 (e - 52)
     in if pow2 1024 \<le> \<bar>r\<bar> then (if 0 < x then PInf else NInf) else Fin r)"

definition py_pow10 :: "float64 \<Rightarrow> float64 option" where
  "py_pow10 v = (case v of
       Fin q \<Rightarrow> (case fl_real (10 powr real_of_rat q) of PInf \<Rightarrow> None | y \<Rightarrow> Some y)
     | PInf \<Rightarrow> Some PInf
     | NInf \<Rightarrow> Some (Fin 0)
     | NaN \<Rightarrow> Some NaN)"

subsection \<open>String builtins\<close>

text \<open>
  Strings are lists of characters. \<open>startswith\<close>, \<open>py_strip\<close> and \<open>py_split\<close> are
  \<open>str.startswith(p)\<close>, \<open>str.strip(chars)\<close> and \<open>str.split(sep)\<close> for a one-character
  separator.
\<close>

definition startswith :: "string \<Rightarrow> string \<Rightarrow> bool" where
  "startswith s p = (take (length p) s = p)"

definition py_strip :: "string \<Rightarrow> string \<Rightarrow> string" where
  "py_strip chars s =
     rev (dropWhile (\<lambda>c. c \<in> set chars) (rev (dropWhile (\<lambda>c. c \<in> set chars) s)))"

fun py_split :: "char \<Rightarrow> string \<Rightarrow> string list" where
  "py_split sep [] = [[]]"
| "py_split sep (c # cs) =
     (if c = sep then [] # py_split sep cs
      else (case py_split sep cs of [] \<Rightarrow> [[c]] | p # ps \<Rightarrow> (c # p) # ps))"

subsection \<open>The builtin \<open>float(str)\<close>\<close>

text \<open>
  \<open>float\<close> strips white space, reads an optional sign and then \<open>inf\<close>, \<open>infinity\<close>,
  \<open>nan\<close> (in any case) or a decimal number
  \<^verbatim>\<open>number ::= [digitpart] "." digitpart | digitpart ["."]\<close> with an optional exponent
  \<^verbatim>\<open>("e" | "E") ["+" | "-"] digitpart\<close>, where
  \<^verbatim>\<open>digitpart ::= digit (["_"] digit)*\<close>; anything else raises \<open>ValueError\<close>. The
  result is the decimal value rounded to binary64. A character is a code point below
  256; the white space among these is listed in \<open>py_whitespace\<close>.
\<close>

definition py_whitespace :: string where
  "py_whitespace = [CHR 0x09, CHR 0x0A, CHR 0x0B, CHR 0x0C, CHR 0x0D,
                    CHR 0x1C, CHR 0x1D, CHR 0x1E, CHR 0x1F, CHR '' '', CHR 0x85, CHR 0xA0]"

definition is_digit :: "char \<Rightarrow> bool" where
  "is_digit c = (c \<in> set ''0123456789'')"

definition digit_val :: "char \<Rightarrow> nat" where
  "digit_val c = of_char c - 48"

definition digits_val :: "string \<Rightarrow> nat" where
  "digits_val ds = foldl (\<lambda>a c. 10 * a + digit_val c) 0 ds"

text \<open>\<open>digits_us\<close> reads \<open>(digit | "_" digit)*\<close> and returns the digits and the rest.\<close>

fun digits_us :: "string \<Rightarrow> string \<times> string" where
  "digits_us [] = ([], [])"
| "digits_us [c] = (if is_digit c then ([c], []) else ([], [c]))"
| "digits_us (c # d # cs) =
     (if is_digit c then (case digits_us (d # cs) of (ds, r) \<Rightarrow> (c # ds, r))
      else if c = CHR ''_'' \<and> is_digit d then digits_us (d # cs)
      else ([], c # d # cs))"

definition digitpart :: "string \<Rightarrow> string \<times> string" where
  "digitpart s = (case s of [] \<Rightarrow> ([], []) | c # _ \<Rightarrow> if is_digit c then digits_us s else ([], s))"

definition read_sign :: "string \<Rightarrow> bool \<times> string" where
  "read_sign s = (case s of [] \<Rightarrow> (False, [])
     | c # cs \<Rightarrow> if c = CHR ''-'' then (True, cs) else if c = CHR ''+'' then (False, cs)
                else (False, s))"

definition read_exponent :: "string \<Rightarrow> int option" where
  "read_exponent s = (case s of [] \<Rightarrow> Some 0
     | c # cs \<Rightarrow>
        if c = CHR ''e'' \<or> c = CHR ''E'' then
          (case read_sign cs of (neg, t) \<Rightarrow>
            (case digitpart t of (ds, r) \<Rightarrow>
              if ds = [] \<or> r \<noteq> [] then None
              else Some (if neg then - int (digits_val ds) else int (digits_val ds))))
        else None)"

definition pow10 :: "int \<Rightarrow> rat" where
  "pow10 e = (if 0 \<le> e then 10 ^ nat e else 1 / 10 ^ nat (- e))"

definition read_number :: "string \<Rightarrow> rat option" where
  "read_number s =
     (case digitpart s of (ip, r1) \<Rightarrow>
       (case (case r1 of [] \<Rightarrow> (False, [], [])
                | c # cs \<Rightarrow> if c = CHR ''.'' then (case digitpart cs of (fp, r2) \<Rightarrow> (True, fp, r2))
                           else (False, [], r1)) of
          (dot, fp, r2) \<Rightarrow>
            if ip = [] \<and> fp = [] then None
            else (case read_exponent r2 of None \<Rightarrow> None
              | Some ex \<Rightarrow>
                  Some (of_nat (digits_val (ip @ fp)) * pow10 (ex - int (length fp))))))"

definition lower :: "string \<Rightarrow> string" where
  "lower s = map (\<lambda>c. if c \<in> set ''ABCDEFGHIJKLMNOPQRSTUVWXYZ''
                      then char_of (of_char c + 32 :: nat) else c) s"

definition py_float :: "string \<Rightarrow> error + float64" where
  "py_float s =
     (case read_sign (py_strip py_whitespace s) of (neg, t) \<Rightarrow>
        if lower t = ''inf'' \<or> lower t = ''infinity'' then Inr (if neg then NInf else PInf)
        else if lower t = ''nan'' then Inr NaN
        else (case read_number t of None \<Rightarrow> Inl ValueError
              | Some q \<Rightarrow> Inr (fl (if neg then - q else q))))"

text \<open>\<open>map(float, parts)\<close>, consumed to the end: the first failure is the exception.\<close>

fun map_float :: "string list \<Rightarrow> error + float64 list" where
  "map_float [] = Inr []"
| "map_float (s # ss) =
     bind_res (py_float s) (\<lambda>x. bind_res (map_float ss) (\<lambda>xs. Inr (x # xs)))"

section \<open>Colours\<close>

text \<open>
  \<open>ColorType\<close>: a colour string, or a tuple of RGB or RGBA channels.
  \<open>matplotlib.colors.to_rgba\<close> belongs to the host library; the functions below take it
  as the parameter \<open>to_rgba\<close>, which returns the RGBA tuple or raises.
\<close>

datatype color = ColorStr string | ColorTuple "float64 list"

type_synonym rgba = "float64 \<times> float64 \<times> float64 \<times> float64"

text \<open>The expression \<open>0.2126 * r + 0.7152 * g + 0.0722 * b\<close>, evaluated left to right.\<close>

definition wcag :: "float64 \<Rightarrow> float64 \<Rightarrow> float64 \<Rightarrow> float64" where
  "wcag r g b =
     fadd (fadd (fmul (fl (2126 / 10000)) r) (fmul (fl (7152 / 10000)) g))
          (fmul (fl (722 / 10000)) b)"

definition luminance :: "(color \<Rightarrow> error + rgba) \<Rightarrow> color \<Rightarrow> error + float64" where
  "luminance to_rgba color =
     (case (case color of ColorStr s \<Rightarrow> if startswith s ''rgb('' then Some s else None
                        | ColorTuple _ \<Rightarrow> None) of
        Some s \<Rightarrow>
          bind_res (map_float (py_split CHR '','' (py_strip ''rgb()'' s)))
            (\<lambda>parts. case parts of
               r # g # b # _ \<Rightarrow>
                 if fgt r (Fin 1) \<or> fgt g (Fin 1) \<or> fgt b (Fin 1) then
                   bind_res (fdiv r (Fin 255)) (\<lambda>r'.
                   bind_res (fdiv g (Fin 255)) (\<lambda>g'.
                   bind_res (fdiv b (Fin 255)) (\<lambda>b'. Inr (wcag r' g' b'))))
                 else Inr (wcag r g b)
             | _ \<Rightarrow> Inl ValueError)
      | None \<Rightarrow>
          bind_res (to_rgba color) (\<lambda>(r, g, b, _). Inr (wcag r g b)))"

definition default_luminance_threshold :: float64 where
  "default_luminance_threshold = fl (3 / 10)"

definition default_colors :: "color \<times> color" where
  "default_colors = (ColorStr ''white'', ColorStr ''black'')"

definition pick_max_contrast_color ::
  "(color \<Rightarrow> error + rgba) \<Rightarrow> color \<Rightarrow> float64 \<Rightarrow> color \<times> color \<Rightarrow> error + color" where
  "pick_max_contrast_color to_rgba bg_color luminance_threshold colors =
     bind_res (luminance to_rgba bg_color) (\<lambda>bg_luminance.
       Inr (if fgt bg_luminance luminance_threshold then snd colors else fst colors))"

subsection \<open>Colour strings of the form \<open>rgb(r,g,b[,a])\<close>\<close>

text \<open>
  \<open>rgb_string comps\<close> is the text \<open>rgb(\<close>, the components separated by commas, and
  \<open>)\<close>. \<open>to_rgba_sample\<close> is a sample of \<open>matplotlib.colors.to_rgba\<close> (RGB and RGBA
  tuples with channels in \<open>[0, 1]\<close>, and the names white and black), used where an
  example needs a concrete host routine.
\<close>

fun join_comma :: "string list \<Rightarrow> string" where
  "join_comma [] = []"
| "join_comma [p] = p"
| "join_comma (p # q # ps) = p @ CHR '','' # join_comma (q # ps)"

definition rgb_string :: "string list \<Rightarrow> string" where
  "rgb_string comps = ''rgb('' @ join_comma comps @ '')''"

definition in_unit :: "float64 \<Rightarrow> bool" where
  "in_unit x = (case x of Fin q \<Rightarrow> 0 \<le> q \<and> q \<le> 1 | _ \<Rightarrow> False)"

definition to_rgba_sample :: "color \<Rightarrow> error + rgba" where
  "to_rgba_sample c = (case c of
       ColorTuple [r, g, b] \<Rightarrow>
         if in_unit r \<and> in_unit g \<and> in_unit b then Inr (r, g, b, Fin 1) else Inl ValueError
     | ColorTuple [r, g, b, a] \<Rightarrow>
         if in_unit r \<and> in_unit g \<and> in_unit b \<and> in_unit a then Inr (r, g, b, a)
         else Inl ValueError
     | ColorTuple _ \<Rightarrow> Inl ValueError
     | ColorStr s \<Rightarrow>
         if s = ''white'' then Inr (Fin 1, Fin 1, Fin 1, Fin 1)
         else if s = ''black'' then Inr (Fin 0, Fin 0, Fin 0, Fin 1)
         else Inl ValueError)"

section \<open>Label prettification\<close>

text \<open>
  Modelled from the spec: the constants \<open>BACKENDS\<close>, \<open>MATPLOTLIB\<close> and \<open>PLOTLY\<close> are
  imported from \<open>pymatviz.typing\<close>, which is not among the sources. The spec speaks of two
  supported backend variants, and the module names them matplotlib and plotly.
\<close>

definition MATPLOTLIB :: string where
  "MATPLOTLIB = ''matplotlib''"

definition PLOTLY :: string where
  "PLOTLY = ''plotly''"

definition BACKENDS :: "string list" where
  "BACKENDS = [MATPLOTLIB, PLOTLY]"

text \<open>\<open>dict.get(key, default)\<close> on a dictionary given as a map.\<close>

definition dict_get :: "('k \<rightharpoonup> 'v) \<Rightarrow> 'k \<Rightarrow> 'v \<Rightarrow> 'v" where
  "dict_get m k d = (case m k of None \<Rightarrow> d | Some v \<Rightarrow> v)"

definition symbol_mapping :: "string \<rightharpoonup> (string \<rightharpoonup> string)" where
  "symbol_mapping =
     [''R2'' \<mapsto> [MATPLOTLIB \<mapsto> ''$R^2$'', PLOTLY \<mapsto> ''R<sup>2</sup>''],
      ''R2_adj'' \<mapsto> [MATPLOTLIB \<mapsto> ''$R^2_{adj}$'',
                      PLOTLY \<mapsto> ''R<sup>2</sup><sub>adj</sub>'']]"

definition pretty_label :: "string \<Rightarrow> string \<Rightarrow> error + string" where
  "pretty_label key backend =
     (if backend \<notin> set BACKENDS then Inl ValueError
      else Inr (dict_get (dict_get symbol_mapping key Map.empty) backend key))"

section \<open>Figure handles\<close>

text \<open>
  Plain Python values, as they occur as keyword arguments and annotation properties.
\<close>

datatype pyval = PNone | PBool bool | PInt int | PFloat float64 | PStr string
  | PDict "(string \<times> pyval) list" | PList "pyval list"

text \<open>
  The \<open>text\<close> argument of \<open>annotate\<close>: one string or a sequence of strings.
\<close>

datatype text_arg = TextStr string | TextSeq "string list"

text \<open>
  A matplotlib axes: its view limits, the colours of its labels, title and x tick labels,
  the data of its plotted lines and the artists added to it. A matplotlib figure is
  known by the axes that \<open>fig.gca()\<close> returns.
\<close>

record anchored_text =
  at_text :: text_arg
  at_props :: "string \<rightharpoonup> pyval"

record mpl_axes =
  xlim :: "float64 \<times> float64"
  ylim :: "float64 \<times> float64"
  xlabel_color :: string
  ylabel_color :: string
  title_color :: string
  xticklabel_colors :: "string list"
  lines :: "(float64 list \<times> float64 list) list"
  artists :: "anchored_text list"

record mpl_figure =
  fig_gca :: mpl_axes

text \<open>
  A plotly trace: its \<open>xaxis\<close> attribute (absent for a trace type without cartesian axes,
  \<open>None\<close> when unset, else a reference such as \<open>x\<close> or \<open>x2\<close>) and its \<open>x\<close> and \<open>y\<close> data
  (\<open>None\<close> when unset; an entry \<open>None\<close> is a missing value). A plotly figure: its traces,
  the annotations of its layout, the font colour of the layout and of its template, and
  the types of its x and y axis.
\<close>

datatype xaxis_attr = NoAttr | Unset | Ref string

record trace =
  xaxis :: xaxis_attr
  trace_x :: "float64 option list option"
  trace_y :: "float64 option list option"

record plotly_fig =
  data :: "trace list"
  annotations :: "(string \<rightharpoonup> pyval) list"
  layout_font_color :: "string option"
  template_font_color :: "string option"
  xaxis_type :: "string option"
  yaxis_type :: "string option"

datatype pyobj = Val pyval | MplAxes mpl_axes | MplFigure mpl_figure | PlotlyFigure plotly_fig

text \<open>
  What \<open>fig.full_figure_for_development(warn=False)\<close> reports: the types and ranges of
  the rendered x and y axis.
\<close>

record dev_fig =
  dev_xaxis_type :: "string option"
  dev_yaxis_type :: "string option"
  dev_xaxis_range :: "float64 \<times> float64"
  dev_yaxis_range :: "float64 \<times> float64"

text \<open>
  The state and the routines of the host libraries that the module reads: the current
  figure and axes of \<open>pyplot\<close>, the entry \<open>text.color\<close> of \<open>rcParams\<close>, the font colour of
  the default plotly template, and the rendering routine of plotly (which raises when
  kaleido is missing).
\<close>

record env =
  plt_gcf :: mpl_figure
  plt_gca :: mpl_axes
  rc_text_color :: "string option"
  default_template_font_color :: "string option"
  full_figure_for_development :: "plotly_fig \<Rightarrow> error + dev_fig"

subsection \<open>Font colour\<close>

definition truthy :: "string option \<Rightarrow> bool" where
  "truthy c = (case c of None \<Rightarrow> False | Some s \<Rightarrow> s \<noteq> [])"

definition get_plotly_font_color :: "env \<Rightarrow> plotly_fig \<Rightarrow> string" where
  "get_plotly_font_color ev fig =
     (if truthy (layout_font_color fig) then the (layout_font_color fig)
      else if truthy (template_font_color fig) then the (template_font_color fig)
      else if truthy (default_template_font_color ev) then the (default_template_font_color ev)
      else ''black'')"

definition get_matplotlib_font_color :: "env \<Rightarrow> mpl_axes \<Rightarrow> string" where
  "get_matplotlib_font_color ev ax =
     (case filter (\<lambda>c. c \<noteq> ''auto'') [xlabel_color ax, ylabel_color ax, title_color ax] of
        c # _ \<Rightarrow> c
      | [] \<Rightarrow>
         (case xticklabel_colors ax of
            c # _ \<Rightarrow> if c \<noteq> ''auto'' then c
                     else (case rc_text_color ev of None \<Rightarrow> ''black'' | Some t \<Rightarrow> t)
          | [] \<Rightarrow> (case rc_text_color ev of None \<Rightarrow> ''black'' | Some t \<Rightarrow> t)))"

definition get_font_color :: "env \<Rightarrow> pyobj \<Rightarrow> error + string" where
  "get_font_color ev fig = (case fig of
       PlotlyFigure f \<Rightarrow> Inr (get_plotly_font_color ev f)
     | MplFigure f \<Rightarrow> Inr (get_matplotlib_font_color ev (fig_gca f))
     | MplAxes ax \<Rightarrow> Inr (get_matplotlib_font_color ev ax)
     | Val _ \<Rightarrow> Inl TypeError)"

subsection \<open>Annotation\<close>

text \<open>
  \<open>fig.add_annotation(text=..., **props)\<close>: Python itself raises \<open>TypeError\<close> when
  \<open>props\<close> has the key \<open>text\<close> as well; otherwise plotly appends the annotation to the
  layout. \<open>ax.add_artist\<close> appends the text box to the artists of the axes.
\<close>

definition add_annotation ::
  "string \<Rightarrow> (string \<rightharpoonup> pyval) \<Rightarrow> plotly_fig \<Rightarrow> error + plotly_fig" where
  "add_annotation txt props fig =
     (if ''text'' \<in> dom props then Inl TypeError
      else Inr (fig\<lparr>annotations := annotations fig @ [props(''text'' \<mapsto> PStr txt)]\<rparr>))"

definition add_artist :: "anchored_text \<Rightarrow> mpl_axes \<Rightarrow> mpl_axes" where
  "add_artist box ax = ax\<lparr>artists := artists ax @ [box]\<rparr>"

definition mpl_text_defaults :: "pyval \<Rightarrow> (string \<rightharpoonup> pyval)" where
  "mpl_text_defaults color =
     [''frameon'' \<mapsto> PBool False, ''loc'' \<mapsto> PStr ''upper left'',
      ''prop'' \<mapsto> PDict [(''color'', color)]]"

definition text_defaults :: "pyval \<Rightarrow> (string \<rightharpoonup> pyval)" where
  "text_defaults color =
     [''x'' \<mapsto> PFloat (fl (2 / 100)), ''y'' \<mapsto> PFloat (fl (96 / 100)),
      ''showarrow'' \<mapsto> PBool False,
      ''font'' \<mapsto> PDict [(''size'', PInt 16), (''color'', color)],
      ''align'' \<mapsto> PStr ''left'']"

text \<open>
  The test \<open>any(getattr(trace, "xaxis", None) not in (None, "x") for trace in fig.data)\<close>.
\<close>

definition is_faceted :: "plotly_fig \<Rightarrow> bool" where
  "is_faceted fig =
     list_ex (\<lambda>t. case xaxis t of Ref r \<Rightarrow> r \<noteq> ''x'' | _ \<Rightarrow> False) (data fig)"

definition domain_ref :: "string \<Rightarrow> string \<Rightarrow> string" where
  "domain_ref axis subplot_idx =
     (if subplot_idx \<noteq> [] then axis @ subplot_idx @ '' domain'' else axis @ '' domain'')"

text \<open>
  The loop \<open>for idx, trace in enumerate(fig.data)\<close> of the faceted branch, from index
  \<open>idx\<close> on. It returns the exception that ended it, if any, and the figure as it is
  then: annotations added before an exception stay.
\<close>

fun annotate_traces ::
  "text_arg \<Rightarrow> (string \<rightharpoonup> pyval) \<Rightarrow> nat \<Rightarrow> trace list \<Rightarrow> plotly_fig
   \<Rightarrow> error option \<times> plotly_fig" where
  "annotate_traces text props idx [] fig = (None, fig)"
| "annotate_traces text props idx (t # ts) fig =
     (case (case text of TextStr s \<Rightarrow> Inr s
            | TextSeq ss \<Rightarrow> if idx < length ss then Inr (ss ! idx) else Inl IndexError) of
        Inl e \<Rightarrow> (Some e, fig)
      | Inr sub_text \<Rightarrow>
          if sub_text = [] then annotate_traces text props (Suc idx) ts fig
          else (case xaxis t of
              NoAttr \<Rightarrow> (Some AttributeError, fig)
            | Unset \<Rightarrow> (Some TypeError, fig)
            | Ref r \<Rightarrow>
               (case add_annotation sub_text
                       ([''xref'' \<mapsto> PStr (domain_ref ''x'' (drop 1 r)),
                         ''yref'' \<mapsto> PStr (domain_ref ''y'' (drop 1 r))] ++ props) fig of
                  Inl e \<Rightarrow> (Some e, fig)
                | Inr fig' \<Rightarrow> annotate_traces text props (Suc idx) ts fig')))"

text \<open>
  \<open>annotate\<close> returns the exception it raised, if any, the figure handle after the call
  (the handle it returns when it does not raise) and the library state after the call.
  \<open>kwargs\<close> are the keyword arguments other than \<open>text\<close> and \<open>fig\<close>: a call that gives one
  of these twice raises \<open>TypeError\<close> before the body runs.
\<close>

definition annotate ::
  "env \<Rightarrow> text_arg \<Rightarrow> pyobj \<Rightarrow> (string \<times> pyval) list \<Rightarrow> error option \<times> pyobj \<times> env" where
  "annotate ev text fig kwargs =
     (if list_ex (\<lambda>(k, v). k = ''text'' \<or> k = ''fig'') kwargs then (Some TypeError, fig, ev)
      else case get_font_color ev fig of
        Inl e \<Rightarrow> (Some e, fig, ev)
      | Inr font_color \<Rightarrow>
         (let color = (case map_of kwargs ''color'' of Some v \<Rightarrow> v | None \<Rightarrow> PStr font_color);
              kw = map_of (filter (\<lambda>(k, v). k \<noteq> ''color'') kwargs)
          in case fig of
               MplAxes ax \<Rightarrow>
                 (None, MplAxes (add_artist \<lparr>at_text = text,
                    at_props = mpl_text_defaults color ++ kw\<rparr> ax), ev)
             | MplFigure f \<Rightarrow>
                 (None, fig, ev\<lparr>plt_gca := add_artist \<lparr>at_text = text,
                    at_props = mpl_text_defaults color ++ kw\<rparr> (plt_gca ev)\<rparr>)
             | PlotlyFigure f \<Rightarrow>
                 if is_faceted f then
                   (case annotate_traces text (text_defaults color ++ kw) 0 (data f) f of
                      (r, f') \<Rightarrow> (r, PlotlyFigure f', ev))
                 else (case text of
                     TextSeq _ \<Rightarrow> (Some ValueError, fig, ev)
                   | TextStr s \<Rightarrow>
                      (case add_annotation s
                              ([''xref'' \<mapsto> PStr ''paper'', ''yref'' \<mapsto> PStr ''paper'']
                               ++ (text_defaults color ++ kw)) f of
                         Inl e \<Rightarrow> (Some e, fig, ev)
                       | Inr f' \<Rightarrow> (None, PlotlyFigure f', ev)))
             | Val _ \<Rightarrow> (Some TypeError, fig, ev)))"

section \<open>Figure validation and axis ranges\<close>

text \<open>
  \<open>isinstance(fig, plt.Axes | plt.Figure | go.Figure)\<close>, and the wrapper that
  \<open>validate_fig\<close> returns for \<open>func\<close>, called with positional arguments \<open>args\<close> and
  keyword arguments \<open>kwargs\<close> in the state \<open>s\<close>; \<open>kwargs.get("fig")\<close> is \<open>None\<close> when the
  key is absent.
\<close>

definition is_fig :: "pyobj \<Rightarrow> bool" where
  "is_fig fig = (case fig of Val _ \<Rightarrow> False | _ \<Rightarrow> True)"

definition validate_fig ::
  "(pyobj list \<Rightarrow> (string \<times> pyobj) list \<Rightarrow> 's \<Rightarrow> (error + 'r) \<times> 's)
   \<Rightarrow> pyobj list \<Rightarrow> (string \<times> pyobj) list \<Rightarrow> 's \<Rightarrow> (error + 'r) \<times> 's" where
  "validate_fig func args kwargs s =
     (let fig = (case map_of kwargs ''fig'' of None \<Rightarrow> Val PNone | Some v \<Rightarrow> v)
      in if fig \<noteq> Val PNone \<and> \<not> is_fig fig then (Inl TypeError, s)
         else func args kwargs s)"

text \<open>
  Indexing \<open>xs[i]\<close> of a tuple: an index from \<open>-len(xs)\<close> to \<open>-1\<close> counts from the end, and
  an index outside \<open>-len(xs) .. len(xs) - 1\<close> raises \<open>IndexError\<close>.
\<close>

definition py_index :: "'a list \<Rightarrow> int \<Rightarrow> error + 'a" where
  "py_index xs i =
     (if 0 \<le> i \<and> i < int (length xs) then Inr (xs ! nat i)
      else if i < 0 \<and> - int (length xs) \<le> i then Inr (xs ! nat (int (length xs) + i))
      else Inl IndexError)"

text \<open>
  The builtins \<open>min\<close> and \<open>max\<close> on a sequence of floats: the first element is kept until
  a strictly smaller (greater) one comes; an empty sequence raises \<open>ValueError\<close>.
\<close>

definition py_min :: "float64 list \<Rightarrow> error + float64" where
  "py_min xs = (case xs of [] \<Rightarrow> Inl ValueError
     | x # r \<Rightarrow> Inr (foldl (\<lambda>m v. if fgt m v then v else m) x r))"

definition py_max :: "float64 list \<Rightarrow> error + float64" where
  "py_max xs = (case xs of [] \<Rightarrow> Inl ValueError
     | x # r \<Rightarrow> Inr (foldl (\<lambda>m v. if fgt v m then v else m) x r))"

text \<open>
  \<open>pd.DataFrame({"x": trace.x, "y": trace.y}).dropna()\<close>: columns of different lengths
  raise \<open>ValueError\<close>, and the rows with a missing \<open>x\<close> or \<open>y\<close> (\<open>None\<close> or \<open>NaN\<close>) are
  dropped. Unset data makes a column of missing values (or, when both are unset, raises
  \<open>ValueError\<close>), so that no row is left and \<open>min\<close> raises \<open>ValueError\<close>: in each case the
  outcome is \<open>ValueError\<close>.
\<close>

definition present :: "float64 option \<Rightarrow> bool" where
  "present v = (case v of None \<Rightarrow> False | Some x \<Rightarrow> x \<noteq> NaN)"

definition dropna_xy :: "trace \<Rightarrow> error + (float64 \<times> float64) list" where
  "dropna_xy t = (case (trace_x t, trace_y t) of
       (Some xs, Some ys) \<Rightarrow>
         if length xs \<noteq> length ys then Inl ValueError
         else Inr (map (\<lambda>(x, y). (the x, the y))
                    (filter (\<lambda>(x, y). present x \<and> present y) (zip xs ys)))
     | _ \<Rightarrow> Inl ValueError)"

text \<open>
  \<open>[10**val for val in range]\<close> for a range of Python floats, where the power can raise
  \<open>OverflowError\<close>.
\<close>

definition log_to_linear :: "float64 \<times> float64 \<Rightarrow> error + float64 \<times> float64" where
  "log_to_linear r =
     (case py_pow10 (fst r) of None \<Rightarrow> Inl OverflowError
      | Some lo \<Rightarrow> (case py_pow10 (snd r) of None \<Rightarrow> Inl OverflowError
                    | Some hi \<Rightarrow> Inr (lo, hi)))"

definition axis_range ::
  "string option \<Rightarrow> float64 \<times> float64 \<Rightarrow> error + float64 \<times> float64" where
  "axis_range axis_type r = (if axis_type = Some ''log'' then log_to_linear r else Inr r)"

text \<open>
  The body of the \<open>except ValueError\<close> clause; an index that is no integer raises
  \<open>TypeError\<close>.
\<close>

definition data_range :: "string option \<Rightarrow> float64 list \<Rightarrow> error + float64 \<times> float64" where
  "data_range axis_type vs =
     bind_res (py_min vs) (\<lambda>lo. bind_res (py_max vs) (\<lambda>hi. axis_range axis_type (lo, hi)))"

definition manual_xy_range ::
  "plotly_fig \<Rightarrow> pyobj \<Rightarrow> error + (float64 \<times> float64) \<times> (float64 \<times> float64)" where
  "manual_xy_range fig trace_idx =
     bind_res (case trace_idx of Val (PInt i) \<Rightarrow> py_index (data fig) i
               | Val (PBool b) \<Rightarrow> py_index (data fig) (if b then 1 else 0)
               | _ \<Rightarrow> Inl TypeError) (\<lambda>t.
     bind_res (dropna_xy t) (\<lambda>rows.
     bind_res (data_range (xaxis_type fig) (map fst rows)) (\<lambda>x_range.
     bind_res (data_range (yaxis_type fig) (map snd rows)) (\<lambda>y_range.
       Inr (x_range, y_range)))))"

text \<open>The body of the \<open>try\<close> clause, given the rendered figure.\<close>

definition rendered_xy_range ::
  "dev_fig \<Rightarrow> error + (float64 \<times> float64) \<times> (float64 \<times> float64)" where
  "rendered_xy_range dev =
     bind_res (axis_range (dev_xaxis_type dev) (dev_xaxis_range dev)) (\<lambda>x_range.
     bind_res (axis_range (dev_yaxis_type dev) (dev_yaxis_range dev)) (\<lambda>y_range.
       Inr (x_range, y_range)))"

text \<open>
  The function that the decorator wraps, on its parameters \<open>fig\<close> and \<open>trace_idx\<close>. A value
  that is no figure has no attribute \<open>full_figure_for_development\<close>.
\<close>

definition get_fig_xy_range_body ::
  "env \<Rightarrow> pyobj \<Rightarrow> pyobj \<Rightarrow> error + (float64 \<times> float64) \<times> (float64 \<times> float64)" where
  "get_fig_xy_range_body ev fig trace_idx =
     (case (if fig = Val PNone then MplFigure (plt_gcf ev) else fig) of
        MplAxes ax \<Rightarrow> Inr (xlim ax, ylim ax)
      | MplFigure f \<Rightarrow> Inr (xlim (fig_gca f), ylim (fig_gca f))
      | Val _ \<Rightarrow> Inl AttributeError
      | PlotlyFigure f \<Rightarrow>
          (case bind_res (full_figure_for_development ev f) rendered_xy_range of
             Inl e \<Rightarrow> if e = ValueError then manual_xy_range f trace_idx else Inl e
           | Inr r \<Rightarrow> Inr r))"

text \<open>
  The binding of a call's arguments to the parameters \<open>(fig, trace_idx=0)\<close>: too many
  positional arguments, an unknown keyword, an argument given twice or a missing \<open>fig\<close>
  raise \<open>TypeError\<close>.
\<close>

definition bind_fig_trace_idx ::
  "pyobj list \<Rightarrow> (string \<times> pyobj) list \<Rightarrow> error + pyobj \<times> pyobj" where
  "bind_fig_trace_idx args kwargs =
     (if 2 < length args \<or> list_ex (\<lambda>(k, v). k \<noteq> ''fig'' \<and> k \<noteq> ''trace_idx'') kwargs
        \<or> (1 \<le> length args \<and> map_of kwargs ''fig'' \<noteq> None)
        \<or> (2 \<le> length args \<and> map_of kwargs ''trace_idx'' \<noteq> None)
      then Inl TypeError
      else (case (if 1 \<le> length args then Some (args ! 0) else map_of kwargs ''fig'') of
          None \<Rightarrow> Inl TypeError
        | Some fig \<Rightarrow>
            Inr (fig, (if 2 \<le> length args then args ! 1
                       else (case map_of kwargs ''trace_idx'' of None \<Rightarrow> Val (PInt 0)
                             | Some v \<Rightarrow> v)))))"

definition get_fig_xy_range_func ::
  "pyobj list \<Rightarrow> (string \<times> pyobj) list \<Rightarrow> env
   \<Rightarrow> (error + (float64 \<times> float64) \<times> (float64 \<times> float64)) \<times> env" where
  "get_fig_xy_range_func args kwargs ev =
     (case bind_fig_trace_idx args kwargs of
        Inl e \<Rightarrow> (Inl e, ev)
      | Inr (fig, trace_idx) \<Rightarrow> (get_fig_xy_range_body ev fig trace_idx, ev))"

definition get_fig_xy_range ::
  "pyobj list \<Rightarrow> (string \<times> pyobj) list \<Rightarrow> env
   \<Rightarrow> (error + (float64 \<times> float64) \<times> (float64 \<times> float64)) \<times> env" where
  "get_fig_xy_range = validate_fig get_fig_xy_range_func"

section \<open>Data bounds\<close>

text \<open>
  The least and the greatest of a sequence of floats, stated without the loop of \<open>min\<close> and
  \<open>max\<close>: a member that no other member is below (above).
\<close>

text \<open>
  The rows of two columns that are complete: both values are there and neither is \<open>NaN\<close>.
\<close>

definition complete_rows :: "float64 option list \<Rightarrow> float64 option list \<Rightarrow> (float64 \<times> float64) list" where
  "complete_rows xs ys = [(x, y). (Some x, Some y) \<leftarrow> zip xs ys, x \<noteq> NaN \<and> y \<noteq> NaN]"

definition is_least :: "float64 \<Rightarrow> float64 list \<Rightarrow> bool" where
  "is_least m vs = (m \<in> set vs \<and> (\<forall>v\<in>set vs. \<not> fgt m v))"

definition is_greatest :: "float64 \<Rightarrow> float64 list \<Rightarrow> bool" where
  "is_greatest m vs = (m \<in> set vs \<and> (\<forall>v\<in>set vs. \<not> fgt v m))"

section \<open>Annotations of a faceted figure\<close>

text \<open>
  The annotation that the spec describes for one sub-plot: the properties \<open>props\<close> (the
  defaults and the caller's keyword arguments) over the reference axes derived from the
  x-axis reference \<open>r\<close> of the trace (the suffix after the first character, the empty
  suffix for the primary sub-plot), with the text \<open>s\<close>. \<open>facet_annotations\<close> is one such
  annotation for each trace whose aligned text is not empty, in the order of the traces.
\<close>

definition the_ref :: "trace \<Rightarrow> string" where
  "the_ref t = (case xaxis t of Ref r \<Rightarrow> r | _ \<Rightarrow> [])"

definition has_ref :: "trace \<Rightarrow> bool" where
  "has_ref t = (case xaxis t of Ref r \<Rightarrow> True | _ \<Rightarrow> False)"

definition facet_annotation :: "(string \<rightharpoonup> pyval) \<Rightarrow> string \<Rightarrow> string \<Rightarrow> (string \<rightharpoonup> pyval)" where
  "facet_annotation props r s =
     ([''xref'' \<mapsto> PStr (if drop 1 r = [] then ''x domain'' else ''x'' @ drop 1 r @ '' domain''),
       ''yref'' \<mapsto> PStr (if drop 1 r = [] then ''y domain'' else ''y'' @ drop 1 r @ '' domain'')]
      ++ props)(''text'' \<mapsto> PStr s)"

definition facet_annotations ::
  "(string \<rightharpoonup> pyval) \<Rightarrow> trace list \<Rightarrow> string list \<Rightarrow> (string \<rightharpoonup> pyval) list" where
  "facet_annotations props ts subs =
     map (\<lambda>(t, s). facet_annotation props (the_ref t) s)
       (filter (\<lambda>(t, s). s \<noteq> []) (zip ts subs))"

text \<open>
  The properties that \<open>annotate\<close> passes on for the keyword arguments \<open>kwargs\<close> and the
  font colour \<open>font_color\<close> of the figure: the defaults, with the colour given by the
  caller or else the font colour, under the other keyword arguments.
\<close>

definition annotation_props :: "string \<Rightarrow> (string \<times> pyval) list \<Rightarrow> (string \<rightharpoonup> pyval)" where
  "annotation_props font_color kwargs =
     text_defaults (case map_of kwargs ''color'' of Some v \<Rightarrow> v | None \<Rightarrow> PStr font_color)
     ++ map_of (filter (\<lambda>(k, v). k \<noteq> ''color'') kwargs)"

definition kwargs_ok :: "(string \<times> pyval) list \<Rightarrow> bool" where
  "kwargs_ok kwargs = (\<not> list_ex (\<lambda>(k, v). k = ''text'' \<or> k = ''fig'') kwargs)"

section \<open>Sample figures\<close>

text \<open>
  Concrete values for the examples. \<open>ax_sample\<close> is a matplotlib axes that shows the line
  from \<open>(0, 0)\<close> to \<open>(10, 5)\<close> with the default margins of 5 percent; \<open>env_sample\<close> is a
  library state without kaleido. \<open>fig_sample\<close> is a plotly figure with one trace on the
  primary axes, \<open>faceted_sample\<close> one with a trace on each of two sub-plots, and
  \<open>mixed_sample\<close> one whose first trace leaves \<open>xaxis\<close> unset while the second is on \<open>x2\<close>.
  \<open>two_trace_sample\<close> has two traces with different data on the primary axes; its second
  trace has the complete rows \<open>(2, 7)\<close> and \<open>(3, 4)\<close>.
\<close>

definition ax_sample :: mpl_axes where
  "ax_sample = \<lparr>xlim = (Fin (- 1 / 2), Fin (21 / 2)), ylim = (Fin (- 1 / 4), Fin (21 / 4)),
     xlabel_color = ''black'', ylabel_color = ''black'', title_color = ''auto'',
     xticklabel_colors = [], lines = [([Fin 0, Fin 10], [Fin 0, Fin 5])], artists = []\<rparr>"

definition env_sample :: env where
  "env_sample = \<lparr>plt_gcf = \<lparr>fig_gca = ax_sample\<rparr>, plt_gca = ax_sample,
     rc_text_color = Some ''black'', default_template_font_color = Some ''#2a3f5f'',
     full_figure_for_development = (\<lambda>f. Inl ValueError)\<rparr>"

definition trace_sample :: "xaxis_attr \<Rightarrow> trace" where
  "trace_sample ax = \<lparr>xaxis = ax, trace_x = Some [Some (Fin 0), None, Some (Fin 10)],
     trace_y = Some [Some (Fin 0), Some (Fin 3), Some (Fin 5)]\<rparr>"

definition fig_of :: "trace list \<Rightarrow> plotly_fig" where
  "fig_of ts = \<lparr>data = ts, annotations = [], layout_font_color = None,
     template_font_color = None, xaxis_type = None, yaxis_type = None\<rparr>"

definition fig_sample :: plotly_fig where
  "fig_sample = fig_of [trace_sample (Ref ''x'')]"

definition faceted_sample :: plotly_fig where
  "faceted_sample = fig_of [trace_sample (Ref ''x''), trace_sample (Ref ''x2'')]"

definition mixed_sample :: plotly_fig where
  "mixed_sample = fig_of [trace_sample Unset, trace_sample (Ref ''x2'')]"

definition trace_sample2 :: trace where
  "trace_sample2 = \<lparr>xaxis = Ref ''x'', trace_x = Some [Some (Fin 2), Some (Fin 1), Some (Fin 3)],
     trace_y = Some [Some (Fin 7), None, Some (Fin 4)]\<rparr>"

definition two_trace_sample :: plotly_fig where
  "two_trace_sample = fig_of [trace_sample (Ref ''x''), trace_sample2]"

text \<open>
  \<open>dev_sample\<close> is a rendered figure whose x axis is logarithmic with the range
  \<open>(0, 2)\<close>, that is from 1 to 100, and whose y axis is linear.
\<close>

definition dev_sample :: dev_fig where
  "dev_sample = \<lparr>dev_xaxis_type = Some ''log'', dev_yaxis_type = Some ''linear'',
     dev_xaxis_range = (Fin 0, Fin 2), dev_yaxis_range = (Fin 0, Fin 5)\<rparr>"

text \<open>
  Readers for the outcome of \<open>annotate\<close>: the annotations of the plotly figure after the
  call, and the values of one property in them.
\<close>

definition result_annotations :: "error option \<times> pyobj \<times> env \<Rightarrow> (string \<rightharpoonup> pyval) list" where
  "result_annotations res = (case fst (snd res) of PlotlyFigure f \<Rightarrow> annotations f | _ \<Rightarrow> [])"

definition prop_values :: "string \<Rightarrow> error option \<times> pyobj \<times> env \<Rightarrow> pyval option list" where
  "prop_values k res = map (\<lambda>a. a k) (result_annotations res)"

section \<open>Facts about the float model and the string builtins\<close>

lemma pow2_powi: "pow2 e = 2 powi e"
  by (simp add: pow2_def power_int_def inverse_eq_divide power_one_over)

lemma pow2_pos: "0 < pow2 e"
  by (simp add: pow2_powi zero_less_power_int)

lemma pow2_strict_mono: "a < b \<Longrightarrow> pow2 a < pow2 b"
  unfolding pow2_powi by (rule power_int_strict_increasing) simp_all

lemma pow2_mono: "a \<le> b \<Longrightarrow> pow2 a \<le> pow2 b"
  unfolding pow2_powi by (rule power_int_increasing) simp_all

lemma pow2_unique:
  assumes "pow2 e \<le> q" "q < pow2 (e + 1)" "pow2 e' \<le> q" "q < pow2 (e' + 1)"
  shows "e = e'"
proof (rule ccontr)
  assume "e \<noteq> e'"
  then consider "e + 1 \<le> e'" | "e' + 1 \<le> e" by linarith
  then show False
  proof cases
    case 1
    from pow2_mono[OF 1] assms show False by linarith
  next
    case 2
    from pow2_mono[OF 2] assms show False by linarith
  qed
qed

lemma bit_length_bounds: "0 < n \<Longrightarrow> 2 ^ (bit_length n - 1) \<le> n \<and> n < 2 ^ bit_length n"
proof (induction n rule: bit_length.induct)
  case (1 n)
  show ?case
  proof (cases "n div 2 = 0")
    case True
    with 1(2) have "n = 1" by (simp add: div_eq_0_iff) 
    then show ?thesis by (simp add: bit_length.simps)
  next
    case False
    then have pos: "0 < n div 2" by simp
    from 1(1)[OF _ pos] 1(2)
    have ih: "2 ^ (bit_length (n div 2) - 1) \<le> n div 2" "n div 2 < 2 ^ bit_length (n div 2)"
      by auto
    have bl: "bit_length n = Suc (bit_length (n div 2))"
      using 1(2) by (subst bit_length.simps) simp
    have "0 < bit_length (n div 2)" using pos by (subst bit_length.simps) simp
    then obtain k where k: "bit_length (n div 2) = Suc k" by (cases "bit_length (n div 2)") auto
    from ih k have "2 * 2 ^ k \<le> n" by simp
    moreover from ih(2) have "n < 2 * 2 ^ bit_length (n div 2)" by linarith
    ultimately show ?thesis by (simp add: bl k)
  qed
qed

lemma of_nat_pow2_le: "2 ^ k \<le> (m::nat) \<Longrightarrow> (2::rat) ^ k \<le> of_nat m"
proof -
  assume "2 ^ k \<le> m"
  then have "(of_nat (2 ^ k) :: rat) \<le> of_nat m" by (rule of_nat_mono)
  then show ?thesis by simp
qed

lemma of_nat_less_pow2: "(m::nat) < 2 ^ k \<Longrightarrow> of_nat m + (1::rat) \<le> 2 ^ k"
proof -
  assume "m < 2 ^ k"
  then have "m + 1 \<le> 2 ^ k" by simp
  then have "(of_nat (m + 1) :: rat) \<le> of_nat (2 ^ k)" by (rule of_nat_mono)
  then show ?thesis by simp
qed

lemma bit_length_Suc: "0 < n \<Longrightarrow> \<exists>k. bit_length n = Suc k"
  by (subst bit_length.simps) simp

lemma pow2_of_nat: "pow2 (int k) = 2 ^ k"
  by (simp add: pow2_def)

lemma pow2_neg_nat: "pow2 (- int k) = 1 / 2 ^ k"
  by (simp add: pow2_powi power_int_minus inverse_eq_divide)

lemma ilog2_bounds_ge1:
  assumes "1 \<le> q"
  shows "pow2 (ilog2 q) \<le> q \<and> q < pow2 (ilog2 q + 1)"
proof -
  define m where "m = nat \<lfloor>q\<rfloor>"
  have f1: "1 \<le> \<lfloor>q\<rfloor>" using assms by (simp add: le_floor_iff)
  have mi: "int m = \<lfloor>q\<rfloor>" unfolding m_def using f1 by linarith
  have m0: "0 < m" using mi f1 by linarith
  have "of_int \<lfloor>q\<rfloor> \<le> q" "q < of_int \<lfloor>q\<rfloor> + 1" by linarith+
  then have lo: "of_nat m \<le> q" and hi: "q < of_nat m + 1"
    unfolding mi[symmetric] by simp_all
  from bit_length_Suc[OF m0] obtain k where k: "bit_length m = Suc k" by blast
  from bit_length_bounds[OF m0] have b: "2 ^ k \<le> m" "m < 2 ^ Suc k" by (simp_all add: k)
  have e: "ilog2 q = int k" using assms by (simp add: ilog2_def m_def[symmetric] k)
  have e1: "int k + 1 = int (Suc k)" by simp
  show ?thesis
    unfolding e e1 pow2_of_nat
    using of_nat_pow2_le[OF b(1)] of_nat_less_pow2[OF b(2)] lo hi by linarith
qed

lemma ilog2_bounds_lt1:
  assumes "0 < q" "q < 1"
  shows "pow2 (ilog2 q) \<le> q \<and> q < pow2 (ilog2 q + 1)"
proof -
  define c where "c = \<lceil>1 / q\<rceil>"
  define m where "m = nat (c - 1)"
  have inv: "1 < 1 / q" using assms by simp
  have cc: "of_int c - 1 < 1 / q" "1 / q \<le> of_int c"
    unfolding c_def by linarith+
  have "(1::rat) < of_int c" using inv cc(2) by linarith
  then have c2: "2 \<le> c" by linarith
  have mi: "int m = c - 1" unfolding m_def using c2 by linarith
  have m0: "0 < m" using mi c2 by linarith
  have mr: "(of_nat m :: rat) = of_int c - 1"
  proof -
    have "(of_nat m :: rat) = of_int (int m)" by simp
    also have "\<dots> = of_int (c - 1)" by (simp only: mi)
    finally show ?thesis by simp
  qed
  have lo: "of_nat m < 1 / q" and hi: "1 / q \<le> of_nat m + 1"
    using cc unfolding mr by simp_all
  from bit_length_Suc[OF m0] obtain k where k: "bit_length m = Suc k" by blast
  from bit_length_bounds[OF m0] have b: "2 ^ k \<le> m" "m < 2 ^ Suc k" by (simp_all add: k)
  have e: "ilog2 q = - int (Suc k)"
    using assms by (simp add: ilog2_def c_def[symmetric] m_def[symmetric] k)
  have e1: "- int (Suc k) + 1 = - int k" by simp
  have up: "1 / q \<le> 2 ^ Suc k" using hi of_nat_less_pow2[OF b(2)] by linarith
  have dn: "2 ^ k < 1 / q" using lo of_nat_pow2_le[OF b(1)] by linarith
  have p1: "(0::rat) < 2 ^ Suc k" and p2: "(0::rat) < 2 ^ k" by simp_all
  have A: "1 / 2 ^ Suc k \<le> q"
  proof -
    have "1 \<le> q * 2 ^ Suc k" using up assms(1) by (simp add: field_simps)
    then show ?thesis using p1 by (simp add: field_simps)
  qed
  have B: "q < 1 / 2 ^ k"
  proof -
    have "q * 2 ^ k < 1" using dn assms(1) by (simp add: field_simps)
    then show ?thesis using p2 by (simp add: field_simps)
  qed
  show ?thesis unfolding e e1 pow2_neg_nat using A B by simp
qed

lemma ilog2_bounds:
  assumes "0 < q"
  shows "pow2 (ilog2 q) \<le> q \<and> q < pow2 (ilog2 q + 1)"
  using ilog2_bounds_ge1[of q] ilog2_bounds_lt1[of q] assms by (cases "1 \<le> q") simp_all

lemma ilog2_eq: "pow2 e \<le> q \<Longrightarrow> q < pow2 (e + 1) \<Longrightarrow> ilog2 q = e"
proof -
  assume a: "pow2 e \<le> q" "q < pow2 (e + 1)"
  have "0 < q" using a(1) pow2_pos[of e] by linarith
  from ilog2_bounds[OF this] a show ?thesis using pow2_unique by blast
qed

lemma round_even_nearest: "\<bar>q - of_int n\<bar> < 1 / 2 \<Longrightarrow> round_even q = n"
proof -
  assume a: "\<bar>q - of_int n\<bar> < 1 / 2"
  show ?thesis
  proof (cases "of_int n \<le> q")
    case True
    then have f: "\<lfloor>q\<rfloor> = n" using a by (intro floor_unique) (auto simp: abs_if split: if_splits)
    show ?thesis using a True by (simp add: round_even_def f Let_def)
  next
    case False
    then have f: "\<lfloor>q\<rfloor> = n - 1" using a by (intro floor_unique) (auto simp: abs_if split: if_splits)
    show ?thesis using a False by (simp add: round_even_def f Let_def)
  qed
qed

lemma fl_nearest:
  assumes "pow2 e \<le> \<bar>q\<bar>" "\<bar>q\<bar> < pow2 (e + 1)" "- 1022 \<le> e"
    and "\<bar>q / pow2 (e - 52) - of_int n\<bar> < 1 / 2"
    and "\<bar>of_int n * pow2 (e - 52)\<bar> < pow2 1024"
  shows "fl q = Fin (of_int n * pow2 (e - 52))"
proof -
  have q: "q \<noteq> 0" using assms(1) pow2_pos[of e] by auto
  have e: "max (ilog2 \<bar>q\<bar>) (- 1022) = e" using ilog2_eq[OF assms(1,2)] assms(3) by simp
  show ?thesis
    unfolding fl_def Let_def e round_even_nearest[OF assms(4)] using q assms(5) by simp
qed

lemma fl_subnormal:
  assumes "q \<noteq> 0" "\<bar>q\<bar> < pow2 (- 1022)"
    and "\<bar>q / pow2 (- 1074) - of_int n\<bar> < 1 / 2"
    and "\<bar>of_int n * pow2 (- 1074)\<bar> < pow2 1024"
  shows "fl q = Fin (of_int n * pow2 (- 1074))"
proof -
  have "ilog2 \<bar>q\<bar> < - 1022"
  proof (rule ccontr)
    assume "\<not> ilog2 \<bar>q\<bar> < - 1022"
    then have "pow2 (- 1022) \<le> pow2 (ilog2 \<bar>q\<bar>)" by (intro pow2_mono) simp
    moreover have "pow2 (ilog2 \<bar>q\<bar>) \<le> \<bar>q\<bar>" using ilog2_bounds[of "\<bar>q\<bar>"] assms(1) by simp
    ultimately show False using assms(2) by linarith
  qed
  then have e: "max (ilog2 \<bar>q\<bar>) (- 1022) = - 1022" by simp
  show ?thesis
    unfolding fl_def Let_def e using assms(1,4) round_even_nearest[OF assms(3)] by simp
qed

lemma fl_2126: "fl (2126 / 10000) = Fin (1914930561557935 / 9007199254740992)"
  using fl_nearest[of "-3" "2126 / 10000" 7659722246231740] by (simp add: pow2_def)

lemma fl_one: "fl 1 = Fin 1"
  using fl_nearest[of 0 1 4503599627370496] by (simp add: pow2_def)

lemma fl_7152: "fl (7152 / 10000) = Fin (6441948906990757 / 9007199254740992)"
  using fl_nearest[of "-1" "7152 / 10000" 6441948906990757] by (simp add: pow2_def)

lemma fl_722: "fl (722 / 10000) = Fin (5202558289538397 / 72057594037927936)"
  using fl_nearest[of "-4" "722 / 10000" 5202558289538397] by (simp add: pow2_def)

lemma fl_03: "fl (3 / 10) = Fin (5404319552844595 / 18014398509481984)"
  using fl_nearest[of "-2" "3 / 10" 5404319552844595] by (simp add: pow2_def)

lemma fl_zero: "fl 0 = Fin 0"
  by (simp add: fl_def)

lemma wcag_white: "wcag (Fin 1) (Fin 1) (Fin 1) = Fin 1"
proof -
  have s1: "fl (1914930561557935 / 9007199254740992 + 6441948906990757 / 9007199254740992)
      = Fin (8356879468548692 / 9007199254740992)"
    using fl_nearest[of "-1" "1914930561557935 / 9007199254740992 + 6441948906990757 / 9007199254740992" 8356879468548692]
    by (simp add: pow2_def)
  have s2: "fl (8356879468548692 / 9007199254740992 + 5202558289538397 / 72057594037927936) = Fin 1"
    using fl_nearest[of "-1" "8356879468548692 / 9007199254740992 + 5202558289538397 / 72057594037927936" 9007199254740992]
    by (simp add: pow2_def)
  have m1: "fl (1914930561557935 / 9007199254740992) = Fin (1914930561557935 / 9007199254740992)"
    using fl_nearest[of "-3" "1914930561557935 / 9007199254740992" 7659722246231740] by (simp add: pow2_def)
  have m2: "fl (6441948906990757 / 9007199254740992) = Fin (6441948906990757 / 9007199254740992)"
    using fl_nearest[of "-1" "6441948906990757 / 9007199254740992" 6441948906990757] by (simp add: pow2_def)
  have m3: "fl (5202558289538397 / 72057594037927936) = Fin (5202558289538397 / 72057594037927936)"
    using fl_nearest[of "-4" "5202558289538397 / 72057594037927936" 5202558289538397] by (simp add: pow2_def)
  show ?thesis
    unfolding wcag_def fl_2126 fl_7152 fl_722 fmul_def fadd_def
    using s1 s2 m1 m2 m3 by simp
qed

lemma fmul_Fin: "fmul (Fin x) (Fin y) = fl (x * y)"
  by (simp add: fmul_def)

lemma fadd_Fin: "fadd (Fin x) (Fin y) = fl (x + y)"
  by (simp add: fadd_def)

lemma fquot_Fin: "fquot (Fin x) (Fin y) = fl (x / y)"
  by (simp add: fquot_def)

lemma fl_255: "fl 255 = Fin 255"
  using fl_nearest[of 7 255 8972014882652160] by (simp add: pow2_def)

lemma wcag_black: "wcag (Fin 0) (Fin 0) (Fin 0) = Fin 0"
  unfolding wcag_def fl_2126 fl_7152 fl_722 fmul_Fin by (simp add: fl_zero fadd_Fin)

lemma fquot_255: "fquot (Fin 255) (Fin 255) = Fin 1" "fquot (Fin 0) (Fin 255) = Fin 0"
  by (simp_all add: fquot_Fin fl_one fl_zero)

lemma wcag_red: "wcag (Fin 1) (Fin 0) (Fin 0) = fl (2126 / 10000)"
proof -
  have m1: "fl (1914930561557935 / 9007199254740992) = Fin (1914930561557935 / 9007199254740992)"
    using fl_nearest[of "-3" "1914930561557935 / 9007199254740992" 7659722246231740] by (simp add: pow2_def)
  show ?thesis
    unfolding wcag_def fl_2126 fl_7152 fl_722 fmul_Fin by (simp add: fl_zero fadd_Fin m1)
qed

lemma fgt_white: "fgt (Fin 1) default_luminance_threshold"
  unfolding default_luminance_threshold_def fl_03 by (simp add: fgt_def)

lemmas py_float_defs = py_float_def read_sign_def py_strip_def py_whitespace_def lower_def
  read_number_def digitpart_def is_digit_def read_exponent_def digits_val_def digit_val_def
  pow10_def

lemma py_float_255: "py_float ''255'' = Inr (Fin 255)"
  using fl_255 by (simp add: py_float_defs)

lemma py_float_0: "py_float ''0'' = Inr (Fin 0)"
  by (simp add: py_float_defs fl_zero)

lemma map_float_red: "map_float [''255'', ''0'', ''0''] = Inr [Fin 255, Fin 0, Fin 0]"
  by (simp add: py_float_255 py_float_0 bind_res_def)

lemma rgb_red: "rgb_string [''255'', ''0'', ''0''] = ''rgb(255,0,0)''"
  by (simp add: rgb_string_def)

lemma py_split_nosep: "sep \<notin> set p \<Longrightarrow> py_split sep (p @ sep # rest) = p # py_split sep rest"
  by (induction p) (auto split: list.splits)

lemma py_split_single: "sep \<notin> set p \<Longrightarrow> py_split sep p = [p]"
  by (induction p) (auto split: list.splits)

lemma py_split_join:
  "ps \<noteq> [] \<Longrightarrow> \<forall>p\<in>set ps. CHR '','' \<notin> set p \<Longrightarrow> py_split CHR '','' (join_comma ps) = ps"
  by (induction ps rule: join_comma.induct) (auto simp: py_split_nosep py_split_single)

lemma dropWhile_pre: "set pre \<subseteq> A \<Longrightarrow> dropWhile (\<lambda>c. c \<in> A) (pre @ s) = dropWhile (\<lambda>c. c \<in> A) s"
  by (induction pre) auto

lemma py_strip_wrapped:
  assumes "set pre \<subseteq> set chars" "set post \<subseteq> set chars" "body \<noteq> []"
    "hd body \<notin> set chars" "last body \<notin> set chars"
  shows "py_strip chars (pre @ body @ post) = body"
proof -
  have 1: "dropWhile (\<lambda>c. c \<in> set chars) (pre @ body @ post) = body @ post"
    using assms by (cases body) (auto simp: dropWhile_pre)
  have 2: "dropWhile (\<lambda>c. c \<in> set chars) (rev (body @ post)) = rev body"
    using assms by (cases body rule: rev_cases) (auto simp: dropWhile_pre)
  show ?thesis unfolding py_strip_def 1 2 by simp
qed


lemma hd_join_comma:
  "join_comma comps \<noteq> [] \<Longrightarrow> \<forall>p\<in>set comps. set p \<inter> A = {} \<Longrightarrow> CHR '','' \<notin> A \<Longrightarrow>
   hd (join_comma comps) \<notin> A"
proof (induction comps rule: join_comma.induct)
  case 1 then show ?case by simp
next
  case (2 p)
  then have "p \<noteq> []" by simp
  from hd_in_set[OF this] 2(2) show ?case by auto
next
  case (3 p q ps)
  show ?case
  proof (cases p)
    case Nil then show ?thesis using 3 by simp
  next
    case (Cons c cs)
    then have "c \<in> set p" by simp
    with 3(3) have "c \<notin> A" by auto
    then show ?thesis using Cons by simp
  qed
qed

lemma last_join_comma:
  "join_comma comps \<noteq> [] \<Longrightarrow> \<forall>p\<in>set comps. set p \<inter> A = {} \<Longrightarrow> CHR '','' \<notin> A \<Longrightarrow>
   last (join_comma comps) \<notin> A"
proof (induction comps rule: join_comma.induct)
  case 1 then show ?case by simp
next
  case (2 p)
  then have "p \<noteq> []" by simp
  from last_in_set[OF this] 2(2) show ?case by auto
next
  case (3 p q ps)
  show ?case
  proof (cases "join_comma (q # ps) = []")
    case True then show ?thesis using 3(4) by simp
  next
    case False
    then have "last (join_comma (p # q # ps)) = last (join_comma (q # ps))" by simp
    moreover have "last (join_comma (q # ps)) \<notin> A" using 3 False by simp
    ultimately show ?thesis by simp
  qed
qed

lemma rgb_string_parts:
  assumes "comps \<noteq> []" "\<forall>p\<in>set comps. set p \<inter> set ''rgb(),'' = {}"
  shows "py_split CHR '','' (py_strip ''rgb()'' (rgb_string comps)) = comps"
proof -
  let ?body = "join_comma comps"
  have nocomma: "\<forall>p\<in>set comps. CHR '','' \<notin> set p" using assms(2) by auto
  have sub: "\<forall>p\<in>set comps. set p \<inter> set ''rgb()'' = {}" using assms(2) by auto
  have c: "CHR '','' \<notin> set ''rgb()''" by simp
  show ?thesis
  proof (cases "?body = []")
    case True
    then have "comps = [[]]" using assms(1) by (cases comps rule: join_comma.cases) auto
    then show ?thesis by (simp add: rgb_string_def py_strip_def)
  next
    case False
    have "py_strip ''rgb()'' (''rgb('' @ ?body @ '')'') = ?body"
    proof (rule py_strip_wrapped)
      show "hd ?body \<notin> set ''rgb()''" by (rule hd_join_comma[OF False sub c])
      show "last ?body \<notin> set ''rgb()''" by (rule last_join_comma[OF False sub c])
    qed (use False in simp_all)
    then show ?thesis using py_split_join[OF assms(1) nocomma] by (simp add: rgb_string_def)
  qed
qed

lemma startswith_rgb_string: "startswith (rgb_string comps) ''rgb(''"
  by (simp add: startswith_def rgb_string_def)

lemma luminance_other:
  "(\<forall>s. color = ColorStr s \<longrightarrow> \<not> startswith s ''rgb('') \<Longrightarrow>
   luminance to_rgba color =
     (case to_rgba color of Inl e \<Rightarrow> Inl e | Inr (r, g, b, a) \<Rightarrow> Inr (wcag r g b))"
  by (auto simp: luminance_def bind_res_def split: color.splits sum.splits)

lemma luminance_rgb:
  assumes "\<forall>p\<in>set comps. set p \<inter> set ''rgb(),'' = {}" "map_float comps = Inr (r # g # b # al)"
  shows "luminance to_rgba (ColorStr (rgb_string comps)) =
     Inr (if fgt r (Fin 1) \<or> fgt g (Fin 1) \<or> fgt b (Fin 1)
          then wcag (fquot r (Fin 255)) (fquot g (Fin 255)) (fquot b (Fin 255))
          else wcag r g b)"
proof -
  have "comps \<noteq> []" using assms(2) by auto
  from rgb_string_parts[OF this assms(1)] assms(2) show ?thesis
    by (simp add: luminance_def startswith_rgb_string bind_res_def fdiv_def)
qed

section \<open>Luminance and contrast colour\<close>

text \<open>
  C1. For every colour, \<open>luminance\<close> returns \<open>0.2126 R + 0.7152 G + 0.0722 B\<close> of the
  normalised channels. A colour that is not a string starting with \<open>rgb(\<close> is resolved by
  the host routine \<open>to_rgba\<close>, whose exception propagates. For a string
  \<open>rgb(r,g,b[,a])\<close> the components are parsed with \<open>float\<close> and, if one of the three
  channels exceeds 1, all three are divided by 255 before the formula is applied. In
  particular the luminance of \<open>(1, 1, 1)\<close> is \<open>1.0\<close>, of \<open>(0, 0, 0)\<close> is \<open>0.0\<close> and of
  \<open>rgb(255,0,0)\<close> is the float \<open>0.2126\<close>.
\<close>

theorem luminance_wcag:
  "((\<forall>s. color = ColorStr s \<longrightarrow> \<not> startswith s ''rgb('') \<longrightarrow>
      luminance to_rgba color =
        (case to_rgba color of Inl e \<Rightarrow> Inl e | Inr (r, g, b, a) \<Rightarrow> Inr (wcag r g b)))
   \<and> ((\<forall>p\<in>set comps. set p \<inter> set ''rgb(),'' = {}) \<longrightarrow>
        map_float comps = Inr (cr # cg # cb # al) \<longrightarrow>
        luminance to_rgba (ColorStr (rgb_string comps)) =
          Inr (if fgt cr (Fin 1) \<or> fgt cg (Fin 1) \<or> fgt cb (Fin 1)
               then wcag (fquot cr (Fin 255)) (fquot cg (Fin 255)) (fquot cb (Fin 255))
               else wcag cr cg cb))
   \<and> (to_rgba (ColorTuple [Fin 1, Fin 1, Fin 1]) = Inr (Fin 1, Fin 1, Fin 1, Fin 1) \<longrightarrow>
        luminance to_rgba (ColorTuple [Fin 1, Fin 1, Fin 1]) = Inr (Fin 1))
   \<and> (to_rgba (ColorTuple [Fin 0, Fin 0, Fin 0]) = Inr (Fin 0, Fin 0, Fin 0, Fin 1) \<longrightarrow>
        luminance to_rgba (ColorTuple [Fin 0, Fin 0, Fin 0]) = Inr (Fin 0))
   \<and> luminance to_rgba (ColorStr ''rgb(255,0,0)'') = Inr (fl (2126 / 10000))"
proof (intro conjI impI)
  assume "\<forall>s. color = ColorStr s \<longrightarrow> \<not> startswith s ''rgb(''"
  then show "luminance to_rgba color =
      (case to_rgba color of Inl e \<Rightarrow> Inl e | Inr (r, g, b, a) \<Rightarrow> Inr (wcag r g b))"
    by (rule luminance_other)
next
  assume "\<forall>p\<in>set comps. set p \<inter> set ''rgb(),'' = {}"
    and "map_float comps = Inr (cr # cg # cb # al)"
  then show "luminance to_rgba (ColorStr (rgb_string comps)) =
      Inr (if fgt cr (Fin 1) \<or> fgt cg (Fin 1) \<or> fgt cb (Fin 1)
           then wcag (fquot cr (Fin 255)) (fquot cg (Fin 255)) (fquot cb (Fin 255))
           else wcag cr cg cb)"
    by (rule luminance_rgb)
next
  assume "to_rgba (ColorTuple [Fin 1, Fin 1, Fin 1]) = Inr (Fin 1, Fin 1, Fin 1, Fin 1)"
  then show "luminance to_rgba (ColorTuple [Fin 1, Fin 1, Fin 1]) = Inr (Fin 1)"
    by (simp add: luminance_def bind_res_def wcag_white)
next
  assume "to_rgba (ColorTuple [Fin 0, Fin 0, Fin 0]) = Inr (Fin 0, Fin 0, Fin 0, Fin 1)"
  then show "luminance to_rgba (ColorTuple [Fin 0, Fin 0, Fin 0]) = Inr (Fin 0)"
    by (simp add: luminance_def bind_res_def wcag_black)
next
  have "\<forall>p\<in>set [''255'', ''0'', ''0'']. set p \<inter> set ''rgb(),'' = {}" by simp
  from luminance_rgb[OF this map_float_red, of to_rgba]
  show "luminance to_rgba (ColorStr ''rgb(255,0,0)'') = Inr (fl (2126 / 10000))"
    unfolding rgb_red by (simp add: fgt_def fquot_255 wcag_red)
qed

theorem luminance_wcag_witness:
  "luminance to_rgba_sample (ColorStr ''white'') = Inr (wcag (Fin 1) (Fin 1) (Fin 1))
   \<and> luminance to_rgba_sample (ColorStr (rgb_string [''255'', ''0'', ''0''])) =
       Inr (wcag (fquot (Fin 255) (Fin 255)) (fquot (Fin 0) (Fin 255)) (fquot (Fin 0) (Fin 255)))
   \<and> luminance to_rgba_sample (ColorTuple [Fin 1, Fin 1, Fin 1]) = Inr (Fin 1)
   \<and> luminance to_rgba_sample (ColorTuple [Fin 0, Fin 0, Fin 0]) = Inr (Fin 0)"
proof -
  have h1: "\<forall>s. ColorStr ''white'' = ColorStr s \<longrightarrow> \<not> startswith s ''rgb(''"
    by (simp add: startswith_def)
  have h2: "\<forall>p\<in>set [''255'', ''0'', ''0'']. set p \<inter> set ''rgb(),'' = {}" by simp
  have h3: "to_rgba_sample (ColorTuple [Fin 1, Fin 1, Fin 1]) = Inr (Fin 1, Fin 1, Fin 1, Fin 1)"
    by (simp add: to_rgba_sample_def in_unit_def)
  have h4: "to_rgba_sample (ColorTuple [Fin 0, Fin 0, Fin 0]) = Inr (Fin 0, Fin 0, Fin 0, Fin 1)"
    by (simp add: to_rgba_sample_def in_unit_def)
  have w: "to_rgba_sample (ColorStr ''white'') = Inr (Fin 1, Fin 1, Fin 1, Fin 1)"
    by (simp add: to_rgba_sample_def)
  show ?thesis
    using luminance_wcag[of "ColorStr ''white''" to_rgba_sample "[''255'', ''0'', ''0'']"
        "Fin 255" "Fin 0" "Fin 0" "[]"] h1 h2 h3 h4 map_float_red
    by (simp add: w fgt_def)
qed

text \<open>
  C2. \<open>pick_max_contrast_color\<close> returns the dark member of the pair (the second one)
  exactly when the luminance of the background is strictly greater than the threshold, and
  the light member (the first one) otherwise; an exception of \<open>luminance\<close> propagates.
  With the defaults (threshold \<open>0.3\<close>, pair white and black) the background white gives
  black.
\<close>

theorem pick_max_contrast_color_dark_iff:
  "(luminance to_rgba bg = Inr l \<longrightarrow>
      pick_max_contrast_color to_rgba bg thr (light, dark) =
        Inr (if fgt l thr then dark else light))
   \<and> (luminance to_rgba bg = Inl e \<longrightarrow>
        pick_max_contrast_color to_rgba bg thr (light, dark) = Inl e)
   \<and> (to_rgba (ColorStr ''white'') = Inr (Fin 1, Fin 1, Fin 1, Fin 1) \<longrightarrow>
        pick_max_contrast_color to_rgba (ColorStr ''white'') default_luminance_threshold
          default_colors = Inr (ColorStr ''black''))"
proof (intro conjI impI)
  assume "luminance to_rgba bg = Inr l"
  then show "pick_max_contrast_color to_rgba bg thr (light, dark) =
      Inr (if fgt l thr then dark else light)"
    by (simp add: pick_max_contrast_color_def bind_res_def)
next
  assume "luminance to_rgba bg = Inl e"
  then show "pick_max_contrast_color to_rgba bg thr (light, dark) = Inl e"
    by (simp add: pick_max_contrast_color_def bind_res_def)
next
  assume w: "to_rgba (ColorStr ''white'') = Inr (Fin 1, Fin 1, Fin 1, Fin 1)"
  have "luminance to_rgba (ColorStr ''white'') = Inr (Fin 1)"
    by (simp add: luminance_def startswith_def bind_res_def w wcag_white)
  then show "pick_max_contrast_color to_rgba (ColorStr ''white'') default_luminance_threshold
      default_colors = Inr (ColorStr ''black'')"
    using fgt_white by (simp add: pick_max_contrast_color_def bind_res_def default_colors_def)
qed

theorem pick_max_contrast_color_dark_iff_witness:
  "pick_max_contrast_color to_rgba_sample (ColorStr ''black'') default_luminance_threshold
      (ColorStr ''white'', ColorStr ''black'') = Inr (ColorStr ''white'')
   \<and> pick_max_contrast_color to_rgba_sample (ColorStr ''red'') default_luminance_threshold
      (ColorStr ''white'', ColorStr ''black'') = Inl ValueError
   \<and> pick_max_contrast_color to_rgba_sample (ColorStr ''white'') default_luminance_threshold
      default_colors = Inr (ColorStr ''black'')"
proof -
  have b: "luminance to_rgba_sample (ColorStr ''black'') = Inr (Fin 0)"
    by (simp add: luminance_def startswith_def bind_res_def to_rgba_sample_def wcag_black)
  have r: "luminance to_rgba_sample (ColorStr ''red'') = Inl ValueError"
    by (simp add: luminance_def startswith_def bind_res_def to_rgba_sample_def)
  have w: "to_rgba_sample (ColorStr ''white'') = Inr (Fin 1, Fin 1, Fin 1, Fin 1)"
    by (simp add: to_rgba_sample_def)
  have n: "\<not> fgt (Fin 0) default_luminance_threshold"
    unfolding default_luminance_threshold_def fl_03 by (simp add: fgt_def)
  show ?thesis
    using pick_max_contrast_color_dark_iff[of to_rgba_sample "ColorStr ''black''" "Fin 0"
        default_luminance_threshold "ColorStr ''white''" "ColorStr ''black''" ValueError]
      pick_max_contrast_color_dark_iff[of to_rgba_sample "ColorStr ''red''" "Fin 0"
        default_luminance_threshold "ColorStr ''white''" "ColorStr ''black''" ValueError]
      b r w n
    by simp
qed

section \<open>Label prettification: the mapping\<close>

lemmas pretty_label_defs = pretty_label_def BACKENDS_def MATPLOTLIB_def PLOTLY_def
  symbol_mapping_def dict_get_def

text \<open>
  C8. \<open>pretty_label\<close> raises \<open>ValueError\<close> whenever the backend is not one of the two
  supported ones. For a supported backend it maps \<open>R2\<close> to \<open>$R^2$\<close> (matplotlib) or
  \<open>R<sup>2</sup>\<close> (plotly), \<open>R2_adj\<close> to the adjusted markup of the backend, and
  returns every other key unchanged.
\<close>

theorem pretty_label_mapping:
  "(backend \<noteq> MATPLOTLIB \<and> backend \<noteq> PLOTLY \<longrightarrow> pretty_label key backend = Inl ValueError)
   \<and> pretty_label ''R2'' MATPLOTLIB = Inr ''$R^2$''
   \<and> pretty_label ''R2'' PLOTLY = Inr ''R<sup>2</sup>''
   \<and> pretty_label ''R2_adj'' MATPLOTLIB = Inr ''$R^2_{adj}$''
   \<and> pretty_label ''R2_adj'' PLOTLY = Inr ''R<sup>2</sup><sub>adj</sub>''
   \<and> ((backend = MATPLOTLIB \<or> backend = PLOTLY) \<and> key \<noteq> ''R2'' \<and> key \<noteq> ''R2_adj'' \<longrightarrow>
        pretty_label key backend = Inr key)"
  by (auto simp: pretty_label_defs)

theorem pretty_label_mapping_witness:
  "pretty_label ''R2'' ''bokeh'' = Inl ValueError
   \<and> pretty_label ''unknown_key'' ''plotly'' = Inr ''unknown_key''"
  using pretty_label_mapping[of "''bokeh''" "''R2''"]
    pretty_label_mapping[of "''plotly''" "''unknown_key''"]
  by (simp add: MATPLOTLIB_def PLOTLY_def)

section \<open>Figure validation\<close>

lemma get_fig_xy_range_fig_None:
  "get_fig_xy_range [] [(''fig'', Val PNone)] ev =
     (Inr (xlim (fig_gca (plt_gcf ev)), ylim (fig_gca (plt_gcf ev))), ev)"
  by (simp add: get_fig_xy_range_def validate_fig_def get_fig_xy_range_func_def
      bind_fig_trace_idx_def get_fig_xy_range_body_def)

text \<open>
  C6. For every function wrapped by \<open>validate_fig\<close>, a call whose keyword argument \<open>fig\<close>
  is neither \<open>None\<close> nor a matplotlib axes, a matplotlib figure or a plotly figure raises
  \<open>TypeError\<close> and leaves the state as it was, whatever the wrapped function is: the
  function has not run. With \<open>fig=None\<close> the wrapper passes the call on, and
  \<open>get_fig_xy_range\<close> then returns the limits of the axes of the current figure of
  \<open>pyplot\<close>; with a dictionary as \<open>fig\<close> it raises \<open>TypeError\<close>.
\<close>

theorem validate_fig_gate:
  "(map_of kwargs ''fig'' = Some v \<and> v \<noteq> Val PNone \<and> \<not> is_fig v \<longrightarrow>
      validate_fig func args kwargs s = (Inl TypeError, s))
   \<and> (map_of kwargs ''fig'' = Some (Val PNone) \<longrightarrow>
        validate_fig func args kwargs s = func args kwargs s)
   \<and> get_fig_xy_range [] [(''fig'', Val PNone)] ev =
        (Inr (xlim (fig_gca (plt_gcf ev)), ylim (fig_gca (plt_gcf ev))), ev)
   \<and> get_fig_xy_range [] [(''fig'', Val (PDict d))] ev = (Inl TypeError, ev)"
  by (simp add: get_fig_xy_range_fig_None) (simp add: validate_fig_def get_fig_xy_range_def is_fig_def)

theorem validate_fig_gate_witness:
  "validate_fig get_fig_xy_range_func [] [(''fig'', Val (PStr ''figure''))] env_sample =
     (Inl TypeError, env_sample)
   \<and> validate_fig get_fig_xy_range_func [] [(''fig'', Val PNone)] env_sample =
     (Inr ((Fin (- 1 / 2), Fin (21 / 2)), (Fin (- 1 / 4), Fin (21 / 4))), env_sample)"
proof -
  have "get_fig_xy_range_func [] [(''fig'', Val PNone)] env_sample =
      (Inr ((Fin (- 1 / 2), Fin (21 / 2)), (Fin (- 1 / 4), Fin (21 / 4))), env_sample)"
    by (simp add: get_fig_xy_range_func_def bind_fig_trace_idx_def get_fig_xy_range_body_def
        env_sample_def ax_sample_def)
  then show ?thesis
    using validate_fig_gate[of "[(''fig'', Val (PStr ''figure''))]" "Val (PStr ''figure'')"
        get_fig_xy_range_func "[]" env_sample]
      validate_fig_gate[of "[(''fig'', Val PNone)]" "Val PNone" get_fig_xy_range_func "[]"
        env_sample]
    by (simp add: is_fig_def)
qed

text \<open>
  C9. When the figure is not given under the keyword \<open>fig\<close> (the keyword is absent, the
  value being passed by position or under another name) or the keyword is \<open>None\<close>, the
  wrapper of \<open>validate_fig\<close> checks nothing and raises nothing itself: the call is the call
  of the wrapped function, whatever the type of the value. So a dictionary passed by
  position reaches the body of \<open>get_fig_xy_range\<close>, which fails there with
  \<open>AttributeError\<close>, not with the \<open>TypeError\<close> of the wrapper.
\<close>

theorem validate_fig_keyword_only:
  "(map_of kwargs ''fig'' = None \<or> map_of kwargs ''fig'' = Some (Val PNone) \<longrightarrow>
      validate_fig func args kwargs s = func args kwargs s)
   \<and> get_fig_xy_range [Val (PDict d)] [] ev = (Inl AttributeError, ev)"
  by (auto simp: validate_fig_def get_fig_xy_range_def get_fig_xy_range_func_def
      bind_fig_trace_idx_def get_fig_xy_range_body_def)

theorem validate_fig_keyword_only_witness:
  "validate_fig get_fig_xy_range_func [Val (PDict [])] [] env_sample =
     (Inl AttributeError, env_sample)
   \<and> validate_fig get_fig_xy_range_func [Val (PInt 3)] [(''trace_idx'', Val (PInt 0))] env_sample =
     (Inl AttributeError, env_sample)"
proof -
  have "get_fig_xy_range_func [Val (PDict [])] [] env_sample = (Inl AttributeError, env_sample)"
    "get_fig_xy_range_func [Val (PInt 3)] [(''trace_idx'', Val (PInt 0))] env_sample =
      (Inl AttributeError, env_sample)"
    by (simp_all add: get_fig_xy_range_func_def bind_fig_trace_idx_def get_fig_xy_range_body_def)
  then show ?thesis
    using validate_fig_keyword_only[of "[]" get_fig_xy_range_func "[Val (PDict [])]" env_sample]
      validate_fig_keyword_only[of "[(''trace_idx'', Val (PInt 0))]" get_fig_xy_range_func
        "[Val (PInt 3)]" env_sample]
    by simp
qed


section \<open>Axis ranges\<close>

subsection \<open>The power of ten\<close>

lemma round_even_real_nearest: "\<bar>x - of_int n\<bar> < 1 / 2 \<Longrightarrow> round_even_real x = n"
proof -
  assume a: "\<bar>x - of_int n\<bar> < 1 / 2"
  show ?thesis
  proof (cases "of_int n \<le> x")
    case True
    then have f: "\<lfloor>x\<rfloor> = n" using a by (intro floor_unique) (auto simp: abs_if split: if_splits)
    show ?thesis using a True by (simp add: round_even_real_def f Let_def)
  next
    case False
    then have f: "\<lfloor>x\<rfloor> = n - 1" using a by (intro floor_unique) (auto simp: abs_if split: if_splits)
    show ?thesis using a False by (simp add: round_even_real_def f Let_def)
  qed
qed

lemma round_even_real_error: "\<bar>of_int (round_even_real x) - x\<bar> \<le> 1 / 2"
proof -
  obtain f where f: "\<lfloor>x\<rfloor> = f" by simp
  have "of_int f \<le> x" "x < of_int f + 1" using f by linarith+
  then show ?thesis unfolding round_even_real_def Let_def f by (auto simp: abs_if)
qed

lemma two_powr_int: "(2::real) powr of_int e = 2 powi e"
  by (simp add: powr_real_of_int power_int_def power_one_over inverse_eq_divide)

lemma of_rat_pow2: "(of_rat (pow2 e) :: real) = 2 powi e"
  by (simp add: pow2_def power_int_def of_rat_divide of_rat_power power_one_over
      inverse_eq_divide)

lemma floor_log2_eq: "2 powi e \<le> x \<Longrightarrow> x < 2 powi (e + 1) \<Longrightarrow> \<lfloor>log 2 x\<rfloor> = e"
proof -
  assume a: "2 powi e \<le> x" "x < 2 powi (e + 1)"
  have "(0::real) < 2 powi e" by (rule zero_less_power_int) simp
  then have "0 < x" using a(1) by linarith
  then show ?thesis
    using a floor_log_eq_powr_iff[of x 2 e] two_powr_int[of e] two_powr_int[of "e + 1"]
    by simp
qed

lemma floor_log2_bounds: "0 < x \<Longrightarrow> 2 powi \<lfloor>log 2 x\<rfloor> \<le> x \<and> x < 2 powi (\<lfloor>log 2 x\<rfloor> + 1)"
  using floor_log_eq_powr_iff[of x 2 "\<lfloor>log 2 x\<rfloor>"] two_powr_int[of "\<lfloor>log 2 x\<rfloor>"]
    two_powr_int[of "\<lfloor>log 2 x\<rfloor> + 1"]
  by simp

lemma fl_real_nearest:
  assumes "2 powi e \<le> \<bar>x\<bar>" "\<bar>x\<bar> < 2 powi (e + 1)" "- 1022 \<le> e"
    and "\<bar>x / 2 powi (e - 52) - of_int n\<bar> < 1 / 2"
    and "\<bar>of_int n * pow2 (e - 52)\<bar> < pow2 1024"
  shows "fl_real x = Fin (of_int n * pow2 (e - 52))"
proof -
  have "(0::real) < 2 powi e" by (rule zero_less_power_int) simp
  with assms(1) have "0 < \<bar>x\<bar>" by linarith
  then have x: "x \<noteq> 0" by auto
  have e: "max \<lfloor>log 2 \<bar>x\<bar>\<rfloor> (- 1022) = e" using floor_log2_eq[OF assms(1,2)] assms(3) by simp
  show ?thesis
    unfolding fl_real_def Let_def e round_even_real_nearest[OF assms(4)] using x assms(5) by simp
qed

lemma fl_real_error:
  assumes "fl_real x = Fin y" "2 powi (- 1022) \<le> \<bar>x\<bar>"
  shows "\<bar>of_rat y - x\<bar> \<le> \<bar>x\<bar> / 2 ^ 53"
proof -
  have "(0::real) < 2 powi (- 1022)" by (rule zero_less_power_int) simp
  with assms(2) have x0: "0 < \<bar>x\<bar>" by linarith
  then have x: "0 < \<bar>x\<bar>" "x \<noteq> 0" by auto
  define e where "e = \<lfloor>log 2 \<bar>x\<bar>\<rfloor>"
  from floor_log2_bounds[OF x(1)] have b: "2 powi e \<le> \<bar>x\<bar>" "\<bar>x\<bar> < 2 powi (e + 1)"
    by (simp_all add: e_def)
  have "(2::real) powi (- 1022) < 2 powi (e + 1)" using assms(2) b(2) by linarith
  then have "- 1022 < e + 1"
  proof (rule contrapos_pp)
    assume "\<not> - 1022 < e + 1"
    then have "e + 1 \<le> - 1022" by simp
    then have "(2::real) powi (e + 1) \<le> 2 powi (- 1022)" by (intro power_int_increasing) simp_all
    then show "\<not> (2::real) powi (- 1022) < 2 powi (e + 1)" by linarith
  qed
  then have m: "max \<lfloor>log 2 \<bar>x\<bar>\<rfloor> (- 1022) = e" by (simp add: e_def)
  define n where "n = round_even_real (x / 2 powi (e - 52))"
  have y: "y = of_int n * pow2 (e - 52)"
    using assms(1) x(2) unfolding fl_real_def Let_def m n_def[symmetric]
    by (simp split: if_splits)
  have u: "(0::real) < 2 powi (e - 52)" by (rule zero_less_power_int) simp
  have yr: "(of_rat y :: real) = of_int n * 2 powi (e - 52)"
    by (simp add: y of_rat_mult of_rat_pow2)
  have "\<bar>of_int n - x / 2 powi (e - 52)\<bar> \<le> 1 / 2"
    unfolding n_def by (rule round_even_real_error)
  then have "\<bar>of_int n - x / 2 powi (e - 52)\<bar> * 2 powi (e - 52) \<le> 1 / 2 * 2 powi (e - 52)"
    using u by (intro mult_right_mono) simp_all
  moreover have "\<bar>of_int n - x / 2 powi (e - 52)\<bar> * 2 powi (e - 52) =
      \<bar>of_int n * 2 powi (e - 52) - x\<bar>"
  proof -
    have "\<bar>of_int n - x / 2 powi (e - 52)\<bar> * 2 powi (e - 52) =
        \<bar>(of_int n - x / 2 powi (e - 52)) * 2 powi (e - 52)\<bar>"
      using u by (simp add: abs_mult)
    also have "(of_int n - x / 2 powi (e - 52)) * 2 powi (e - 52) = of_int n * 2 powi (e - 52) - x"
      using u by (simp add: field_simps)
    finally show ?thesis .
  qed
  moreover have "1 / 2 * (2::real) powi (e - 52) = 2 powi e / 2 ^ 53"
  proof -
    have "(2::real) powi (e - 52) = 2 powi e / 2 ^ 52"
      by (simp add: power_int_diff)
    then show ?thesis by simp
  qed
  ultimately have "\<bar>of_rat y - x\<bar> \<le> 2 powi e / 2 ^ 53" by (simp add: yr)
  also have "\<dots> \<le> \<bar>x\<bar> / 2 ^ 53" using b(1) by (simp add: divide_right_mono)
  finally show ?thesis .
qed

lemma py_pow10_error:
  assumes "py_pow10 (Fin q) = Some (Fin y)" "- 307 \<le> q"
  shows "\<bar>real_of_rat y - 10 powr real_of_rat q\<bar> \<le> 10 powr real_of_rat q / 2 ^ 53"
proof -
  let ?x = "(10::real) powr of_rat q"
  have f: "fl_real ?x = Fin y"
    using assms(1) by (simp add: py_pow10_def split: float64.splits)
  have "(- 307 :: real) \<le> of_rat q"
    using assms(2) by (metis of_rat_less_eq of_rat_minus of_rat_numeral_eq)
  then have "(10::real) powr (- 307) \<le> ?x" by (intro powr_mono) simp_all
  moreover have "(10::real) powr (- 307) = 1 / 10 ^ 307"
    by (simp add: powr_minus_divide)
  moreover have "(2::real) powi (- 1022) \<le> 1 / 10 ^ 307"
    by (simp add: power_int_minus field_simps)
  ultimately have "2 powi (- 1022) \<le> \<bar>?x\<bar>" by simp
  from fl_real_error[OF f this] show ?thesis by simp
qed

lemma py_pow10_0: "py_pow10 (Fin 0) = Some (Fin 1)"
  using fl_real_nearest[of 0 1 4503599627370496]
  by (simp add: py_pow10_def pow2_def power_int_minus)

lemma py_pow10_2: "py_pow10 (Fin 2) = Some (Fin 100)"
  using fl_real_nearest[of 6 100 7036874417766400]
  by (simp add: py_pow10_def pow2_def power_int_minus)

lemma py_pow10_3: "py_pow10 (Fin 3) = Some (Fin 1000)"
  using fl_real_nearest[of 9 1000 8796093022208000]
  by (simp add: py_pow10_def pow2_def power_int_minus)
lemma axis_range_not_ValueError: "axis_range ty r \<noteq> Inl ValueError"
  by (simp add: axis_range_def log_to_linear_def split: option.splits)

lemma rendered_xy_range_not_ValueError: "rendered_xy_range dev \<noteq> Inl ValueError"
proof -
  have "axis_range (dev_xaxis_type dev) (dev_xaxis_range dev) \<noteq> Inl ValueError"
    "axis_range (dev_yaxis_type dev) (dev_yaxis_range dev) \<noteq> Inl ValueError"
    by (rule axis_range_not_ValueError)+
  then show ?thesis
    by (auto simp: rendered_xy_range_def bind_res_def split: sum.splits)
qed

lemma plotly_rendered:
  "full_figure_for_development ev f = Inr dev \<Longrightarrow>
   get_fig_xy_range_body ev (PlotlyFigure f) ti = rendered_xy_range dev"
  using rendered_xy_range_not_ValueError[of dev]
  by (auto simp: get_fig_xy_range_body_def bind_res_def split: sum.splits)

lemma plotly_fallback:
  "full_figure_for_development ev f = Inl ValueError \<Longrightarrow>
   get_fig_xy_range_body ev (PlotlyFigure f) ti = manual_xy_range f ti"
  by (simp add: get_fig_xy_range_body_def bind_res_def)

lemma plotly_propagates:
  "full_figure_for_development ev f = Inl e \<Longrightarrow> e \<noteq> ValueError \<Longrightarrow>
   get_fig_xy_range_body ev (PlotlyFigure f) ti = Inl e"
  by (simp add: get_fig_xy_range_body_def bind_res_def)

lemma foldl_min_mem: "foldl (\<lambda>m v. if fgt m v then v else m) x r \<in> set (x # r)"
  by (induction r arbitrary: x) auto

lemma foldl_max_mem: "foldl (\<lambda>m v. if fgt v m then v else m) x r \<in> set (x # r)"
  by (induction r arbitrary: x) auto

lemma fgt_trans: "fgt a b \<Longrightarrow> fgt b c \<Longrightarrow> fgt a c"
  by (cases a; cases b; cases c) (auto simp: fgt_def)

lemma fgt_total: "a \<noteq> NaN \<Longrightarrow> b \<noteq> NaN \<Longrightarrow> fgt a b \<or> fgt b a \<or> a = b"
  by (cases a; cases b) (auto simp: fgt_def)

lemma fgt_asym: "fgt a b \<Longrightarrow> \<not> fgt b a"
  by (cases a; cases b) (auto simp: fgt_def)

lemma foldl_min_le:
  "NaN \<notin> set (x # r) \<Longrightarrow> v \<in> set (x # r) \<Longrightarrow>
   \<not> fgt (foldl (\<lambda>m v. if fgt m v then v else m) x r) v"
proof (induction r arbitrary: x v)
  case Nil
  then show ?case by (auto dest: fgt_asym)
next
  case (Cons a r)
  let ?x' = "if fgt x a then a else x"
  have n: "NaN \<notin> set (?x' # r)" using Cons.prems(1) by auto
  have step: "\<not> fgt (foldl (\<lambda>m v. if fgt m v then v else m) ?x' r) ?x'"
    using Cons.IH[OF n, of ?x'] by simp
  show ?case
  proof (cases "v \<in> set (?x' # r)")
    case True
    from Cons.IH[OF n True] show ?thesis by simp
  next
    case False
    then have v: "(v = x \<or> v = a)" "\<not> fgt ?x' v"
      using Cons.prems(2) by (auto dest: fgt_asym)
    have "\<not> fgt (foldl (\<lambda>m v. if fgt m v then v else m) ?x' r) v"
    proof
      assume g: "fgt (foldl (\<lambda>m v. if fgt m v then v else m) ?x' r) v"
      have "?x' \<noteq> NaN" "v \<noteq> NaN" using Cons.prems v(1) by auto
      from fgt_total[OF this] v(2) have "fgt v ?x' \<or> ?x' = v" by auto
      then show False using g step fgt_trans by blast
    qed
    then show ?thesis by simp
  qed
qed

lemma foldl_max_ge:
  "NaN \<notin> set (x # r) \<Longrightarrow> v \<in> set (x # r) \<Longrightarrow>
   \<not> fgt v (foldl (\<lambda>m v. if fgt v m then v else m) x r)"
proof (induction r arbitrary: x v)
  case Nil
  then show ?case by (auto dest: fgt_asym)
next
  case (Cons a r)
  let ?x' = "if fgt a x then a else x"
  have n: "NaN \<notin> set (?x' # r)" using Cons.prems(1) by auto
  have step: "\<not> fgt ?x' (foldl (\<lambda>m v. if fgt v m then v else m) ?x' r)"
    using Cons.IH[OF n, of ?x'] by simp
  show ?case
  proof (cases "v \<in> set (?x' # r)")
    case True
    from Cons.IH[OF n True] show ?thesis by simp
  next
    case False
    then have v: "(v = x \<or> v = a)" "\<not> fgt v ?x'"
      using Cons.prems(2) by (auto dest: fgt_asym)
    have "\<not> fgt v (foldl (\<lambda>m v. if fgt v m then v else m) ?x' r)"
    proof
      assume g: "fgt v (foldl (\<lambda>m v. if fgt v m then v else m) ?x' r)"
      have "?x' \<noteq> NaN" "v \<noteq> NaN" using Cons.prems v(1) by auto
      from fgt_total[OF this] v(2) have "fgt ?x' v \<or> ?x' = v" by auto
      then show False using g step fgt_trans by blast
    qed
    then show ?thesis by simp
  qed
qed

lemma py_min_least:
  "py_min vs = Inr m \<Longrightarrow> NaN \<notin> set vs \<Longrightarrow> m \<in> set vs \<and> (\<forall>v\<in>set vs. \<not> fgt m v)"
  using foldl_min_mem foldl_min_le by (cases vs) (auto simp: py_min_def)

lemma py_max_greatest:
  "py_max vs = Inr m \<Longrightarrow> NaN \<notin> set vs \<Longrightarrow> m \<in> set vs \<and> (\<forall>v\<in>set vs. \<not> fgt v m)"
  using foldl_max_mem foldl_max_ge by (cases vs) (auto simp: py_max_def)

lemma dropna_xy_rows:
  "dropna_xy t = Inr rows \<Longrightarrow>
   \<exists>xs ys. trace_x t = Some xs \<and> trace_y t = Some ys \<and> length xs = length ys \<and>
     rows = map (\<lambda>(x, y). (the x, the y)) (filter (\<lambda>(x, y). present x \<and> present y) (zip xs ys))"
  by (auto simp: dropna_xy_def split: option.splits if_splits)

lemma dropna_xy_no_NaN:
  "dropna_xy t = Inr rows \<Longrightarrow> NaN \<notin> set (map fst rows) \<and> NaN \<notin> set (map snd rows)"
  by (drule dropna_xy_rows) (auto simp: present_def split: option.splits)

lemma py_min_ex: "vs \<noteq> [] \<Longrightarrow> \<exists>m. py_min vs = Inr m"
  by (cases vs) (simp_all add: py_min_def)

lemma py_max_ex: "vs \<noteq> [] \<Longrightarrow> \<exists>m. py_max vs = Inr m"
  by (cases vs) (simp_all add: py_max_def)

lemma is_least_unique:
  "is_least a vs \<Longrightarrow> is_least b vs \<Longrightarrow> NaN \<notin> set vs \<Longrightarrow> a = b"
proof -
  assume a: "is_least a vs" and b: "is_least b vs" and n: "NaN \<notin> set vs"
  then have "a \<noteq> NaN" "b \<noteq> NaN" "\<not> fgt a b" "\<not> fgt b a" by (auto simp: is_least_def)
  then show ?thesis using fgt_total by blast
qed

lemma is_greatest_unique:
  "is_greatest a vs \<Longrightarrow> is_greatest b vs \<Longrightarrow> NaN \<notin> set vs \<Longrightarrow> a = b"
proof -
  assume a: "is_greatest a vs" and b: "is_greatest b vs" and n: "NaN \<notin> set vs"
  then have "a \<noteq> NaN" "b \<noteq> NaN" "\<not> fgt a b" "\<not> fgt b a" by (auto simp: is_greatest_def)
  then show ?thesis using fgt_total by blast
qed

lemma py_min_is_least: "vs \<noteq> [] \<Longrightarrow> NaN \<notin> set vs \<Longrightarrow> \<exists>m. py_min vs = Inr m \<and> is_least m vs"
  using py_min_ex[of vs] py_min_least[of vs] by (auto simp: is_least_def)

lemma py_max_is_greatest:
  "vs \<noteq> [] \<Longrightarrow> NaN \<notin> set vs \<Longrightarrow> \<exists>m. py_max vs = Inr m \<and> is_greatest m vs"
  using py_max_ex[of vs] py_max_greatest[of vs] by (auto simp: is_greatest_def)

lemma data_range_bounds:
  assumes "vs \<noteq> []" "NaN \<notin> set vs"
  shows "\<exists>lo hi. is_least lo vs \<and> is_greatest hi vs \<and>
           data_range ty vs = axis_range ty (lo, hi)"
proof -
  from py_min_is_least[OF assms] obtain lo where lo: "py_min vs = Inr lo" "is_least lo vs"
    by blast
  from py_max_is_greatest[OF assms] obtain hi where hi: "py_max vs = Inr hi" "is_greatest hi vs"
    by blast
  have "data_range ty vs = axis_range ty (lo, hi)"
    by (simp add: data_range_def bind_res_def lo(1) hi(1))
  with lo(2) hi(2) show ?thesis by blast
qed

lemma manual_xy_range_bounds:
  assumes t: "py_index (data f) i = Inr t" and rows: "dropna_xy t = Inr rows" and ne: "rows \<noteq> []"
  shows "\<exists>x0 x1 y0 y1.
      is_least x0 (map fst rows) \<and> is_greatest x1 (map fst rows) \<and>
      is_least y0 (map snd rows) \<and> is_greatest y1 (map snd rows) \<and>
      manual_xy_range f (Val (PInt i)) =
        bind_res (axis_range (xaxis_type f) (x0, x1)) (\<lambda>x_range.
        bind_res (axis_range (yaxis_type f) (y0, y1)) (\<lambda>y_range. Inr (x_range, y_range)))"
proof -
  from dropna_xy_no_NaN[OF rows]
  have n: "NaN \<notin> set (map fst rows)" "NaN \<notin> set (map snd rows)" by auto
  have nx: "map fst rows \<noteq> []" and ny: "map snd rows \<noteq> []" using ne by auto
  from data_range_bounds[OF nx n(1), of "xaxis_type f"] obtain x0 x1 where
    x: "is_least x0 (map fst rows)" "is_greatest x1 (map fst rows)"
       "data_range (xaxis_type f) (map fst rows) = axis_range (xaxis_type f) (x0, x1)"
    by blast
  from data_range_bounds[OF ny n(2), of "yaxis_type f"] obtain y0 y1 where
    y: "is_least y0 (map snd rows)" "is_greatest y1 (map snd rows)"
       "data_range (yaxis_type f) (map snd rows) = axis_range (yaxis_type f) (y0, y1)"
    by blast
  have "manual_xy_range f (Val (PInt i)) =
        bind_res (axis_range (xaxis_type f) (x0, x1)) (\<lambda>x_range.
        bind_res (axis_range (yaxis_type f) (y0, y1)) (\<lambda>y_range. Inr (x_range, y_range)))"
    unfolding manual_xy_range_def by (simp add: t rows x(3) y(3) bind_res_def split: sum.splits)
  with x(1,2) y(1,2) show ?thesis by blast
qed


lemma axis_range_log:
  "axis_range ty (lo, hi) = Inr r \<longleftrightarrow>
     (if ty = Some ''log'' then py_pow10 lo = Some (fst r) \<and> py_pow10 hi = Some (snd r)
      else r = (lo, hi))"
  by (cases r) (auto simp: axis_range_def log_to_linear_def split: option.splits)

lemma axis_range_overflow:
  "ty = Some ''log'' \<Longrightarrow> py_pow10 lo = None \<or> py_pow10 hi = None \<Longrightarrow>
   axis_range ty (lo, hi) = Inl OverflowError"
  by (auto simp: axis_range_def log_to_linear_def split: option.splits)

lemma py_index_nth:
  "k < length xs \<Longrightarrow> i = int k \<or> i = int k - int (length xs) \<Longrightarrow> py_index xs i = Inr (xs ! k)"
proof -
  assume k: "k < length xs" and i: "i = int k \<or> i = int k - int (length xs)"
  from i show ?thesis
  proof
    assume "i = int k"
    then show ?thesis using k by (simp add: py_index_def)
  next
    assume a: "i = int k - int (length xs)"
    then have "i < 0" "- int (length xs) \<le> i" "nat (int (length xs) + i) = k" using k by simp_all
    then show ?thesis by (simp add: py_index_def)
  qed
qed

lemma py_index_out_of_range:
  "i < - int (length xs) \<or> int (length xs) \<le> i \<Longrightarrow> py_index xs i = Inl IndexError"
  by (auto simp: py_index_def)

lemma complete_rows_filter:
  "map (\<lambda>(x, y). (the x, the y)) (filter (\<lambda>(x, y). present x \<and> present y) zs) =
     [(x, y). (Some x, Some y) \<leftarrow> zs, x \<noteq> NaN \<and> y \<noteq> NaN]"
  by (induction zs) (auto simp: present_def split: option.splits)

lemma dropna_xy_complete:
  "trace_x t = Some xs \<Longrightarrow> trace_y t = Some ys \<Longrightarrow> length xs = length ys \<Longrightarrow>
   dropna_xy t = Inr (complete_rows xs ys)"
  by (simp add: dropna_xy_def complete_rows_def complete_rows_filter)

lemma dropna_xy_unset:
  "trace_x t = None \<or> trace_y t = None \<Longrightarrow> dropna_xy t = Inl ValueError"
  by (auto simp: dropna_xy_def split: option.splits)

lemma manual_xy_range_at:
  assumes k: "k < length (data f)" "i = int k \<or> i = int k - int (length (data f))"
    and d: "trace_x (data f ! k) = Some xs" "trace_y (data f ! k) = Some ys" "length xs = length ys"
    and ne: "complete_rows xs ys \<noteq> []"
  shows "\<exists>x0 x1 y0 y1.
      is_least x0 (map fst (complete_rows xs ys)) \<and> is_greatest x1 (map fst (complete_rows xs ys)) \<and>
      is_least y0 (map snd (complete_rows xs ys)) \<and> is_greatest y1 (map snd (complete_rows xs ys)) \<and>
      manual_xy_range f (Val (PInt i)) =
        bind_res (axis_range (xaxis_type f) (x0, x1)) (\<lambda>x_range.
        bind_res (axis_range (yaxis_type f) (y0, y1)) (\<lambda>y_range. Inr (x_range, y_range)))"
  by (rule manual_xy_range_bounds[OF py_index_nth[OF k] dropna_xy_complete[OF d] ne])

lemma manual_xy_range_no_rows:
  assumes k: "k < length (data f)" "i = int k \<or> i = int k - int (length (data f))"
    and d: "trace_x (data f ! k) = Some xs" "trace_y (data f ! k) = Some ys" "length xs = length ys"
    and e: "complete_rows xs ys = []"
  shows "manual_xy_range f (Val (PInt i)) = Inl ValueError"
  by (simp add: manual_xy_range_def py_index_nth[OF k] dropna_xy_complete[OF d] e bind_res_def
      data_range_def py_min_def)

lemma manual_xy_range_unset:
  assumes k: "k < length (data f)" "i = int k \<or> i = int k - int (length (data f))"
    and d: "trace_x (data f ! k) = None \<or> trace_y (data f ! k) = None"
  shows "manual_xy_range f (Val (PInt i)) = Inl ValueError"
  by (simp add: manual_xy_range_def py_index_nth[OF k] dropna_xy_unset[OF d] bind_res_def)

lemma manual_xy_range_IndexError:
  "i < - int (length (data f)) \<or> int (length (data f)) \<le> i \<Longrightarrow>
   manual_xy_range f (Val (PInt i)) = Inl IndexError"
  by (simp add: manual_xy_range_def py_index_out_of_range bind_res_def)

lemma luminance_to_rgba_error:
  "to_rgba c = Inl e \<Longrightarrow> (\<forall>s. c = ColorStr s \<longrightarrow> \<not> startswith s ''rgb('') \<Longrightarrow>
   luminance to_rgba c = Inl e"
  by (simp add: luminance_other)

lemma luminance_parse_error:
  assumes "\<forall>p\<in>set comps. set p \<inter> set ''rgb(),'' = {}" "map_float comps = Inl e"
  shows "luminance to_rgba (ColorStr (rgb_string comps)) = Inl e"
proof -
  have "comps \<noteq> []" using assms(2) by auto
  from rgb_string_parts[OF this assms(1)] assms(2) show ?thesis
    by (simp add: luminance_def startswith_rgb_string bind_res_def)
qed

lemma pick_max_contrast_color_error:
  "luminance to_rgba c = Inl e \<Longrightarrow> pick_max_contrast_color to_rgba c thr cols = Inl e"
  by (simp add: pick_max_contrast_color_def bind_res_def)

lemma annotate_font_color_error:
  "get_font_color ev fig = Inl e \<Longrightarrow> kwargs_ok kwargs \<Longrightarrow>
   annotate ev text fig kwargs = (Some e, fig, ev)"
  by (simp add: annotate_def kwargs_ok_def)

lemma validate_fig_passes:
  "map_of kw ''fig'' = None \<or> (map_of kw ''fig'' = Some v \<and> (v = Val PNone \<or> is_fig v)) \<Longrightarrow>
   validate_fig func args kw s = func args kw s"
  by (auto simp: validate_fig_def)

lemmas sample_defs = env_sample_def fig_sample_def faceted_sample_def mixed_sample_def fig_of_def
  trace_sample_def ax_sample_def dev_sample_def trace_sample2_def two_trace_sample_def

lemmas range_defs = manual_xy_range_def py_index_def dropna_xy_def present_def data_range_def
  py_min_def py_max_def fgt_def axis_range_def log_to_linear_def bind_res_def

text \<open>
  C4. For a plotly figure \<open>get_fig_xy_range\<close> first calls the rendering routine. When the
  routine returns, the ranges it reports are the result. When it raises \<open>ValueError\<close> (the
  error of a missing kaleido), and only then, the result is computed from the trace that
  \<open>trace_idx\<close> selects among the traces of the figure (the trace at position \<open>k\<close> for the
  index \<open>k\<close> and for the index \<open>k - n\<close>, \<open>n\<close> being the number of traces): the least and the
  greatest \<open>x\<close> and \<open>y\<close> among the rows of that trace in which neither value is missing.
  On both paths the range of an axis of type \<open>log\<close> is replaced by the powers of ten of
  its two ends, each within half a unit in the last place of the real power (so
  \<open>10 ** 2.0\<close> is \<open>100.0\<close>), and the range of any other axis is returned as it is. No other
  exception is caught: another exception of the routine, an index out of range, a trace
  without complete rows and an overflow of the power all reach the caller, and so do, in
  the other functions of the module, the exception of the colour routine and of the
  parser in \<open>luminance\<close>, that of \<open>luminance\<close> in \<open>pick_max_contrast_color\<close>, that of
  \<open>get_font_color\<close> in \<open>annotate\<close>, and whatever the function wrapped by \<open>validate_fig\<close>
  returns or raises once the check has passed.
\<close>

theorem get_fig_xy_range_plotly:
  "(full_figure_for_development ev f = Inr dev \<longrightarrow>
      get_fig_xy_range_body ev (PlotlyFigure f) ti =
        bind_res (axis_range (dev_xaxis_type dev) (dev_xaxis_range dev)) (\<lambda>x_range.
        bind_res (axis_range (dev_yaxis_type dev) (dev_yaxis_range dev)) (\<lambda>y_range.
          Inr (x_range, y_range))))
   \<and> (full_figure_for_development ev f = Inl ValueError \<longrightarrow>
        get_fig_xy_range_body ev (PlotlyFigure f) ti = manual_xy_range f ti)
   \<and> (full_figure_for_development ev f = Inl e \<and> e \<noteq> ValueError \<longrightarrow>
        get_fig_xy_range_body ev (PlotlyFigure f) ti = Inl e)
   \<and> (k < length (data f) \<and> (i = int k \<or> i = int k - int (length (data f)))
        \<and> trace_x (data f ! k) = Some xs \<and> trace_y (data f ! k) = Some ys
        \<and> length xs = length ys \<and> complete_rows xs ys \<noteq> [] \<longrightarrow>
        (\<exists>x0 x1 y0 y1.
           is_least x0 (map fst (complete_rows xs ys))
           \<and> is_greatest x1 (map fst (complete_rows xs ys))
           \<and> is_least y0 (map snd (complete_rows xs ys))
           \<and> is_greatest y1 (map snd (complete_rows xs ys))
           \<and> manual_xy_range f (Val (PInt i)) =
               bind_res (axis_range (xaxis_type f) (x0, x1)) (\<lambda>x_range.
               bind_res (axis_range (yaxis_type f) (y0, y1)) (\<lambda>y_range.
                 Inr (x_range, y_range)))))
   \<and> (i < - int (length (data f)) \<or> int (length (data f)) \<le> i \<longrightarrow>
        manual_xy_range f (Val (PInt i)) = Inl IndexError)
   \<and> (k < length (data f) \<and> (i = int k \<or> i = int k - int (length (data f)))
        \<and> ((trace_x (data f ! k) = None \<or> trace_y (data f ! k) = None)
            \<or> (trace_x (data f ! k) = Some xs \<and> trace_y (data f ! k) = Some ys
                \<and> length xs = length ys \<and> complete_rows xs ys = [])) \<longrightarrow>
        manual_xy_range f (Val (PInt i)) = Inl ValueError)
   \<and> (axis_range ty (lo, hi) = Inr r \<longleftrightarrow>
        (if ty = Some ''log'' then py_pow10 lo = Some (fst r) \<and> py_pow10 hi = Some (snd r)
         else r = (lo, hi)))
   \<and> (ty = Some ''log'' \<and> (py_pow10 lo = None \<or> py_pow10 hi = None) \<longrightarrow>
        axis_range ty (lo, hi) = Inl OverflowError)
   \<and> (py_pow10 (Fin q) = Some (Fin y) \<and> - 307 \<le> q \<longrightarrow>
        \<bar>real_of_rat y - 10 powr real_of_rat q\<bar> \<le> 10 powr real_of_rat q / 2 ^ 53)
   \<and> py_pow10 (Fin 2) = Some (Fin 100)
   \<and> (to_rgba c = Inl e \<and> (\<forall>s. c = ColorStr s \<longrightarrow> \<not> startswith s ''rgb('') \<longrightarrow>
        luminance to_rgba c = Inl e)
   \<and> ((\<forall>p\<in>set comps. set p \<inter> set ''rgb(),'' = {}) \<and> map_float comps = Inl e \<longrightarrow>
        luminance to_rgba (ColorStr (rgb_string comps)) = Inl e)
   \<and> (luminance to_rgba c = Inl e \<longrightarrow> pick_max_contrast_color to_rgba c thr cols = Inl e)
   \<and> (get_font_color ev fig = Inl e \<and> kwargs_ok kwargs \<longrightarrow>
        annotate ev text fig kwargs = (Some e, fig, ev))
   \<and> (map_of kw ''fig'' = None \<or> (map_of kw ''fig'' = Some v \<and> (v = Val PNone \<or> is_fig v)) \<longrightarrow>
        validate_fig func args kw s = func args kw s)"
proof (intro conjI impI)
  assume "full_figure_for_development ev f = Inr dev"
  from plotly_rendered[OF this]
  show "get_fig_xy_range_body ev (PlotlyFigure f) ti =
        bind_res (axis_range (dev_xaxis_type dev) (dev_xaxis_range dev)) (\<lambda>x_range.
        bind_res (axis_range (dev_yaxis_type dev) (dev_yaxis_range dev)) (\<lambda>y_range.
          Inr (x_range, y_range)))"
    by (simp add: rendered_xy_range_def)
next
  assume "full_figure_for_development ev f = Inl ValueError"
  then show "get_fig_xy_range_body ev (PlotlyFigure f) ti = manual_xy_range f ti"
    by (rule plotly_fallback)
next
  assume "full_figure_for_development ev f = Inl e \<and> e \<noteq> ValueError"
  then show "get_fig_xy_range_body ev (PlotlyFigure f) ti = Inl e"
    using plotly_propagates by blast
next
  assume "k < length (data f) \<and> (i = int k \<or> i = int k - int (length (data f)))
        \<and> trace_x (data f ! k) = Some xs \<and> trace_y (data f ! k) = Some ys
        \<and> length xs = length ys \<and> complete_rows xs ys \<noteq> []"
  then show "\<exists>x0 x1 y0 y1.
           is_least x0 (map fst (complete_rows xs ys))
           \<and> is_greatest x1 (map fst (complete_rows xs ys))
           \<and> is_least y0 (map snd (complete_rows xs ys))
           \<and> is_greatest y1 (map snd (complete_rows xs ys))
           \<and> manual_xy_range f (Val (PInt i)) =
               bind_res (axis_range (xaxis_type f) (x0, x1)) (\<lambda>x_range.
               bind_res (axis_range (yaxis_type f) (y0, y1)) (\<lambda>y_range.
                 Inr (x_range, y_range)))"
    using manual_xy_range_at[of k f i xs ys] by blast
next
  assume "i < - int (length (data f)) \<or> int (length (data f)) \<le> i"
  then show "manual_xy_range f (Val (PInt i)) = Inl IndexError"
    by (rule manual_xy_range_IndexError)
next
  assume a: "k < length (data f) \<and> (i = int k \<or> i = int k - int (length (data f)))
        \<and> ((trace_x (data f ! k) = None \<or> trace_y (data f ! k) = None)
            \<or> (trace_x (data f ! k) = Some xs \<and> trace_y (data f ! k) = Some ys
                \<and> length xs = length ys \<and> complete_rows xs ys = []))"
  then have k: "k < length (data f)" "i = int k \<or> i = int k - int (length (data f))"
    by simp_all
  note d = a[THEN conjunct2, THEN conjunct2]
  from d show "manual_xy_range f (Val (PInt i)) = Inl ValueError"
  proof
    assume "trace_x (data f ! k) = None \<or> trace_y (data f ! k) = None"
    from manual_xy_range_unset[OF k this] show ?thesis .
  next
    assume "trace_x (data f ! k) = Some xs \<and> trace_y (data f ! k) = Some ys
                \<and> length xs = length ys \<and> complete_rows xs ys = []"
    then show ?thesis using manual_xy_range_no_rows[OF k, of xs ys] by blast
  qed
next
  show "axis_range ty (lo, hi) = Inr r \<longleftrightarrow>
        (if ty = Some ''log'' then py_pow10 lo = Some (fst r) \<and> py_pow10 hi = Some (snd r)
         else r = (lo, hi))"
    by (rule axis_range_log)
next
  assume "ty = Some ''log'' \<and> (py_pow10 lo = None \<or> py_pow10 hi = None)"
  then show "axis_range ty (lo, hi) = Inl OverflowError"
    using axis_range_overflow by blast
next
  assume "py_pow10 (Fin q) = Some (Fin y) \<and> - 307 \<le> q"
  then show "\<bar>real_of_rat y - 10 powr real_of_rat q\<bar> \<le> 10 powr real_of_rat q / 2 ^ 53"
    using py_pow10_error by blast
next
  show "py_pow10 (Fin 2) = Some (Fin 100)" by (rule py_pow10_2)
next
  assume "to_rgba c = Inl e \<and> (\<forall>s. c = ColorStr s \<longrightarrow> \<not> startswith s ''rgb('')"
  then show "luminance to_rgba c = Inl e" using luminance_to_rgba_error by blast
next
  assume "(\<forall>p\<in>set comps. set p \<inter> set ''rgb(),'' = {}) \<and> map_float comps = Inl e"
  then show "luminance to_rgba (ColorStr (rgb_string comps)) = Inl e"
    using luminance_parse_error by blast
next
  assume "luminance to_rgba c = Inl e"
  then show "pick_max_contrast_color to_rgba c thr cols = Inl e"
    by (rule pick_max_contrast_color_error)
next
  assume "get_font_color ev fig = Inl e \<and> kwargs_ok kwargs"
  then show "annotate ev text fig kwargs = (Some e, fig, ev)"
    using annotate_font_color_error by blast
next
  assume "map_of kw ''fig'' = None \<or> (map_of kw ''fig'' = Some v \<and> (v = Val PNone \<or> is_fig v))"
  then show "validate_fig func args kw s = func args kw s"
    by (rule validate_fig_passes)
qed

lemma complete_rows_no_NaN:
  "NaN \<notin> set (map fst (complete_rows xs ys)) \<and> NaN \<notin> set (map snd (complete_rows xs ys))"
  unfolding complete_rows_def complete_rows_filter[symmetric]
  by (auto simp: present_def split: option.splits)

theorem get_fig_xy_range_plotly_witness:
  "get_fig_xy_range_body env_sample (PlotlyFigure two_trace_sample) (Val (PInt 1)) =
     Inr ((Fin 2, Fin 3), (Fin 4, Fin 7))
   \<and> get_fig_xy_range_body env_sample (PlotlyFigure two_trace_sample) (Val (PInt (- 1))) =
     Inr ((Fin 2, Fin 3), (Fin 4, Fin 7))
   \<and> get_fig_xy_range_body env_sample (PlotlyFigure two_trace_sample) (Val (PInt 0)) =
     Inr ((Fin 0, Fin 10), (Fin 0, Fin 5))
   \<and> get_fig_xy_range_body env_sample
       (PlotlyFigure (two_trace_sample\<lparr>xaxis_type := Some ''log''\<rparr>)) (Val (PInt 1)) =
     Inr ((Fin 100, Fin 1000), (Fin 4, Fin 7))
   \<and> get_fig_xy_range_body env_sample (PlotlyFigure two_trace_sample) (Val (PInt 2)) =
     Inl IndexError
   \<and> get_fig_xy_range_body (env_sample\<lparr>full_figure_for_development := \<lambda>f. Inr dev_sample\<rparr>)
       (PlotlyFigure two_trace_sample) (Val (PInt 1)) = Inr ((Fin 1, Fin 100), (Fin 0, Fin 5))
   \<and> get_fig_xy_range_body (env_sample\<lparr>full_figure_for_development := \<lambda>f. Inl AttributeError\<rparr>)
       (PlotlyFigure two_trace_sample) (Val (PInt 1)) = Inl AttributeError
   \<and> pick_max_contrast_color to_rgba_sample (ColorStr ''red'') default_luminance_threshold
       default_colors = Inl ValueError
   \<and> annotate env_sample (TextStr ''note'') (Val PNone) [] = (Some TypeError, Val PNone, env_sample)
   \<and> validate_fig get_fig_xy_range_func [] [(''fig'', PlotlyFigure two_trace_sample),
       (''trace_idx'', Val (PInt 2))] env_sample = (Inl IndexError, env_sample)"
proof -
  let ?xs0 = "[Some (Fin 0), None, Some (Fin 10)]" and ?ys0 = "[Some (Fin 0), Some (Fin 3), Some (Fin 5)]"
  let ?xs1 = "[Some (Fin 2), Some (Fin 1), Some (Fin 3)]" and ?ys1 = "[Some (Fin 7), None, Some (Fin 4)]"
  let ?lf = "two_trace_sample\<lparr>xaxis_type := Some ''log''\<rparr>"
  let ?evr = "env_sample\<lparr>full_figure_for_development := \<lambda>f. Inr dev_sample\<rparr>"
  let ?eva = "env_sample\<lparr>full_figure_for_development := \<lambda>f. Inl AttributeError\<rparr>"
  note t1 = get_fig_xy_range_plotly[THEN conjunct2]
  note t2 = t1[THEN conjunct2]
  note t3 = t2[THEN conjunct2]
  note t4 = t3[THEN conjunct2]
  note t5 = t4[THEN conjunct2]
  note t6 = t5[THEN conjunct2]
  note t7 = t6[THEN conjunct2]
  note t8 = t7[THEN conjunct2]
  note t9 = t8[THEN conjunct2]
  note t10 = t9[THEN conjunct2]
  note t11 = t10[THEN conjunct2]
  note t12 = t11[THEN conjunct2]
  note t13 = t12[THEN conjunct2]
  note rendered = get_fig_xy_range_plotly[THEN conjunct1, THEN mp]
  note fallback = t1[THEN conjunct1, THEN mp]
  note propagates = t2[THEN conjunct1, THEN mp]
  note selects = t3[THEN conjunct1, THEN mp]
  note out_of_range = t4[THEN conjunct1, THEN mp]
  note log_axis = t6[THEN conjunct1]
  note colour_error = t10[THEN conjunct1, THEN mp]
  note luminance_error = t12[THEN conjunct1, THEN mp]
  note font_color_error = t13[THEN conjunct1, THEN mp]
  note passes = t13[THEN conjunct2, THEN mp]
  have sel: "manual_xy_range f (Val (PInt i)) =
        bind_res (axis_range (xaxis_type f) (x0, x1)) (\<lambda>x_range.
        bind_res (axis_range (yaxis_type f) (y0, y1)) (\<lambda>y_range. Inr (x_range, y_range)))"
    if h: "k < length (data f) \<and> (i = int k \<or> i = int k - int (length (data f)))
        \<and> trace_x (data f ! k) = Some xs \<and> trace_y (data f ! k) = Some ys
        \<and> length xs = length ys \<and> complete_rows xs ys \<noteq> []"
      and b: "is_least x0 (map fst (complete_rows xs ys))"
        "is_greatest x1 (map fst (complete_rows xs ys))"
        "is_least y0 (map snd (complete_rows xs ys))"
        "is_greatest y1 (map snd (complete_rows xs ys))"
    for f k i xs ys x0 x1 y0 y1
  proof -
    from selects[OF h]
    obtain a0 a1 b0 b1 where
      m: "is_least a0 (map fst (complete_rows xs ys))" "is_greatest a1 (map fst (complete_rows xs ys))"
         "is_least b0 (map snd (complete_rows xs ys))" "is_greatest b1 (map snd (complete_rows xs ys))"
         "manual_xy_range f (Val (PInt i)) =
          bind_res (axis_range (xaxis_type f) (a0, a1)) (\<lambda>x_range.
          bind_res (axis_range (yaxis_type f) (b0, b1)) (\<lambda>y_range. Inr (x_range, y_range)))"
      by blast
    note n = complete_rows_no_NaN[of xs ys]
    have "a0 = x0" "a1 = x1" "b0 = y0" "b1 = y1"
      using is_least_unique[OF m(1) b(1)] is_greatest_unique[OF m(2) b(2)]
        is_least_unique[OF m(3) b(3)] is_greatest_unique[OF m(4) b(4)] n by auto
    then show ?thesis using m(5) by simp
  qed
  have d: "data two_trace_sample = [trace_sample (Ref ''x''), trace_sample2]"
    "data ?lf = [trace_sample (Ref ''x''), trace_sample2]"
    "xaxis_type two_trace_sample = None" "yaxis_type two_trace_sample = None"
    "xaxis_type ?lf = Some ''log''" "yaxis_type ?lf = None"
    by (simp_all add: sample_defs)
  have r0: "complete_rows ?xs0 ?ys0 = [(Fin 0, Fin 0), (Fin 10, Fin 5)]"
    and r1: "complete_rows ?xs1 ?ys1 = [(Fin 2, Fin 7), (Fin 3, Fin 4)]"
    by (simp_all add: complete_rows_def)
  have b0: "is_least (Fin 0) (map fst (complete_rows ?xs0 ?ys0))"
    "is_greatest (Fin 10) (map fst (complete_rows ?xs0 ?ys0))"
    "is_least (Fin 0) (map snd (complete_rows ?xs0 ?ys0))"
    "is_greatest (Fin 5) (map snd (complete_rows ?xs0 ?ys0))"
    unfolding r0 by (simp_all add: is_least_def is_greatest_def fgt_def)
  have b1: "is_least (Fin 2) (map fst (complete_rows ?xs1 ?ys1))"
    "is_greatest (Fin 3) (map fst (complete_rows ?xs1 ?ys1))"
    "is_least (Fin 4) (map snd (complete_rows ?xs1 ?ys1))"
    "is_greatest (Fin 7) (map snd (complete_rows ?xs1 ?ys1))"
    unfolding r1 by (simp_all add: is_least_def is_greatest_def fgt_def)
  have lin: "axis_range None r = Inr r" for r by (simp add: axis_range_def)
  have lg: "axis_range (Some ''log'') (Fin 2, Fin 3) = Inr (Fin 100, Fin 1000)"
    "axis_range (Some ''log'') (Fin 0, Fin 2) = Inr (Fin 1, Fin 100)"
    using log_axis[of "Some ''log''" "Fin 2" "Fin 3" "(Fin 100, Fin 1000)"]
      log_axis[of "Some ''log''" "Fin 0" "Fin 2" "(Fin 1, Fin 100)"]
      py_pow10_0 py_pow10_2 py_pow10_3
    by simp_all
  have m1: "manual_xy_range two_trace_sample (Val (PInt 1)) = Inr ((Fin 2, Fin 3), (Fin 4, Fin 7))"
    using sel[of 1 two_trace_sample 1 ?xs1 ?ys1, OF _ b1]
    by (simp add: d trace_sample2_def r1 lin bind_res_def)
  have m2: "manual_xy_range two_trace_sample (Val (PInt (- 1))) =
      Inr ((Fin 2, Fin 3), (Fin 4, Fin 7))"
    using sel[of 1 two_trace_sample "- 1" ?xs1 ?ys1, OF _ b1]
    by (simp add: d trace_sample2_def r1 lin bind_res_def)
  have m0: "manual_xy_range two_trace_sample (Val (PInt 0)) = Inr ((Fin 0, Fin 10), (Fin 0, Fin 5))"
    using sel[of 0 two_trace_sample 0 ?xs0 ?ys0, OF _ b0]
    by (simp add: d trace_sample_def r0 lin bind_res_def)
  have ml: "manual_xy_range ?lf (Val (PInt 1)) = Inr ((Fin 100, Fin 1000), (Fin 4, Fin 7))"
    using sel[of 1 ?lf 1 ?xs1 ?ys1, OF _ b1]
    by (simp add: d trace_sample2_def r1 lin lg bind_res_def)
  have mi: "manual_xy_range two_trace_sample (Val (PInt 2)) = Inl IndexError"
    by (rule out_of_range) (simp add: d)
  have fb: "get_fig_xy_range_body env_sample (PlotlyFigure f) ti = manual_xy_range f ti" for f ti
    by (rule fallback) (simp add: env_sample_def)
  have rd: "get_fig_xy_range_body ?evr (PlotlyFigure two_trace_sample) (Val (PInt 1)) =
      Inr ((Fin 1, Fin 100), (Fin 0, Fin 5))"
    using rendered[of ?evr two_trace_sample dev_sample "Val (PInt 1)"] lg(2)
    by (simp add: dev_sample_def axis_range_def bind_res_def)
  have pr: "get_fig_xy_range_body ?eva (PlotlyFigure two_trace_sample) (Val (PInt 1)) =
      Inl AttributeError"
    by (rule propagates) simp
  have lum: "luminance to_rgba_sample (ColorStr ''red'') = Inl ValueError"
    by (rule colour_error) (simp add: to_rgba_sample_def startswith_def)
  have pk: "pick_max_contrast_color to_rgba_sample (ColorStr ''red'') default_luminance_threshold
       default_colors = Inl ValueError"
    by (rule luminance_error[OF lum])
  have an: "annotate env_sample (TextStr ''note'') (Val PNone) [] =
      (Some TypeError, Val PNone, env_sample)"
    by (rule font_color_error) (simp add: get_font_color_def kwargs_ok_def)
  have vf: "validate_fig get_fig_xy_range_func [] [(''fig'', PlotlyFigure two_trace_sample),
       (''trace_idx'', Val (PInt 2))] env_sample = (Inl IndexError, env_sample)"
    using passes[of "[(''fig'', PlotlyFigure two_trace_sample), (''trace_idx'', Val (PInt 2))]"
        "PlotlyFigure two_trace_sample" get_fig_xy_range_func "[]" env_sample] fb mi
    by (simp add: is_fig_def get_fig_xy_range_func_def bind_fig_trace_idx_def)
  show ?thesis
    using m1 m2 m0 ml mi rd pr pk an vf by (simp add: fb)
qed

lemma get_fig_xy_range_kw:
  "get_fig_xy_range [] [(''fig'', v), (''trace_idx'', ti)] ev =
     (if v \<noteq> Val PNone \<and> \<not> is_fig v then (Inl TypeError, ev)
      else (get_fig_xy_range_body ev v ti, ev))"
  by (simp add: get_fig_xy_range_def validate_fig_def get_fig_xy_range_func_def
      bind_fig_trace_idx_def)

lemma get_fig_xy_range_default_idx:
  "get_fig_xy_range [] [(''fig'', v)] ev =
     get_fig_xy_range [] [(''fig'', v), (''trace_idx'', Val (PInt 0))] ev"
  by (simp add: get_fig_xy_range_def validate_fig_def get_fig_xy_range_func_def
      bind_fig_trace_idx_def)

lemma manual_xy_range_linear:
  assumes lin: "xaxis_type f \<noteq> Some ''log''" "yaxis_type f \<noteq> Some ''log''"
    and t: "py_index (data f) i = Inr t" and rows: "dropna_xy t = Inr rows"
    and b: "is_least x0 (map fst rows)" "is_greatest x1 (map fst rows)"
           "is_least y0 (map snd rows)" "is_greatest y1 (map snd rows)"
  shows "manual_xy_range f (Val (PInt i)) = Inr ((x0, x1), (y0, y1))"
proof -
  have ne: "rows \<noteq> []" using b(1) by (auto simp: is_least_def)
  from dropna_xy_no_NaN[OF rows]
  have n: "NaN \<notin> set (map fst rows)" "NaN \<notin> set (map snd rows)" by auto
  from manual_xy_range_bounds[OF t rows ne] obtain a0 a1 b0 b1 where
    m: "is_least a0 (map fst rows)" "is_greatest a1 (map fst rows)"
       "is_least b0 (map snd rows)" "is_greatest b1 (map snd rows)"
       "manual_xy_range f (Val (PInt i)) =
        bind_res (axis_range (xaxis_type f) (a0, a1)) (\<lambda>x_range.
        bind_res (axis_range (yaxis_type f) (b0, b1)) (\<lambda>y_range. Inr (x_range, y_range)))"
    by blast
  have "a0 = x0" "a1 = x1" "b0 = y0" "b1 = y1"
    using is_least_unique[OF m(1) b(1) n(1)] is_greatest_unique[OF m(2) b(2) n(1)]
      is_least_unique[OF m(3) b(3) n(2)] is_greatest_unique[OF m(4) b(4) n(2)] by auto
  then show ?thesis using m(5) lin by (simp add: axis_range_def bind_res_def)
qed

text \<open>
  C5, as the code has it. For a matplotlib axes or figure \<open>get_fig_xy_range\<close> returns the
  current view limits of the axes, and for a plotly figure that is rendered the ranges
  that the renderer reports: neither is computed from the data. Only when the rendering
  routine raises \<open>ValueError\<close> and both axes are linear the result is the pair of data
  bounds \<open>((x_min, x_max), (y_min, y_max))\<close> of the rows of the trace at \<open>trace_idx\<close>
  (0 by default) that have both values; so \<open>((0, 10), (0, 5))\<close> for such a trace that spans
  \<open>[0, 10]\<close> and \<open>[0, 5]\<close>.
\<close>

theorem get_fig_xy_range_data_bounds:
  "get_fig_xy_range [] [(''fig'', MplAxes ax)] ev = (Inr (xlim ax, ylim ax), ev)
   \<and> get_fig_xy_range [] [(''fig'', MplFigure mf)] ev =
       (Inr (xlim (fig_gca mf), ylim (fig_gca mf)), ev)
   \<and> (full_figure_for_development ev f = Inr dev \<and> dev_xaxis_type dev \<noteq> Some ''log''
        \<and> dev_yaxis_type dev \<noteq> Some ''log'' \<longrightarrow>
        get_fig_xy_range [] [(''fig'', PlotlyFigure f)] ev =
          (Inr (dev_xaxis_range dev, dev_yaxis_range dev), ev))
   \<and> (full_figure_for_development ev f = Inl ValueError
        \<and> xaxis_type f \<noteq> Some ''log'' \<and> yaxis_type f \<noteq> Some ''log''
        \<and> py_index (data f) i = Inr t \<and> dropna_xy t = Inr rows
        \<and> is_least x0 (map fst rows) \<and> is_greatest x1 (map fst rows)
        \<and> is_least y0 (map snd rows) \<and> is_greatest y1 (map snd rows) \<longrightarrow>
        get_fig_xy_range [] [(''fig'', PlotlyFigure f), (''trace_idx'', Val (PInt i))] ev =
          (Inr ((x0, x1), (y0, y1)), ev))
   \<and> get_fig_xy_range [] [(''fig'', PlotlyFigure f)] ev =
       get_fig_xy_range [] [(''fig'', PlotlyFigure f), (''trace_idx'', Val (PInt 0))] ev"
proof (intro conjI impI)
  show "get_fig_xy_range [] [(''fig'', MplAxes ax)] ev = (Inr (xlim ax, ylim ax), ev)"
    by (simp add: get_fig_xy_range_default_idx get_fig_xy_range_kw is_fig_def
        get_fig_xy_range_body_def)
  show "get_fig_xy_range [] [(''fig'', MplFigure mf)] ev =
       (Inr (xlim (fig_gca mf), ylim (fig_gca mf)), ev)"
    by (simp add: get_fig_xy_range_default_idx get_fig_xy_range_kw is_fig_def
        get_fig_xy_range_body_def)
  show "get_fig_xy_range [] [(''fig'', PlotlyFigure f)] ev =
       get_fig_xy_range [] [(''fig'', PlotlyFigure f), (''trace_idx'', Val (PInt 0))] ev"
    by (rule get_fig_xy_range_default_idx)
next
  assume a: "full_figure_for_development ev f = Inr dev \<and> dev_xaxis_type dev \<noteq> Some ''log''
        \<and> dev_yaxis_type dev \<noteq> Some ''log''"
  then have "get_fig_xy_range_body ev (PlotlyFigure f) (Val (PInt 0)) =
      Inr (dev_xaxis_range dev, dev_yaxis_range dev)"
    using plotly_rendered[of ev f dev "Val (PInt 0)"]
    by (simp add: rendered_xy_range_def axis_range_def bind_res_def)
  then show "get_fig_xy_range [] [(''fig'', PlotlyFigure f)] ev =
          (Inr (dev_xaxis_range dev, dev_yaxis_range dev), ev)"
    by (simp add: get_fig_xy_range_default_idx get_fig_xy_range_kw is_fig_def)
next
  assume a: "full_figure_for_development ev f = Inl ValueError
        \<and> xaxis_type f \<noteq> Some ''log'' \<and> yaxis_type f \<noteq> Some ''log''
        \<and> py_index (data f) i = Inr t \<and> dropna_xy t = Inr rows
        \<and> is_least x0 (map fst rows) \<and> is_greatest x1 (map fst rows)
        \<and> is_least y0 (map snd rows) \<and> is_greatest y1 (map snd rows)"
  then have "manual_xy_range f (Val (PInt i)) = Inr ((x0, x1), (y0, y1))"
    using manual_xy_range_linear[of f i t rows x0 x1 y0 y1] by blast
  then have "get_fig_xy_range_body ev (PlotlyFigure f) (Val (PInt i)) = Inr ((x0, x1), (y0, y1))"
    using a plotly_fallback[of ev f "Val (PInt i)"] by simp
  then show "get_fig_xy_range [] [(''fig'', PlotlyFigure f), (''trace_idx'', Val (PInt i))] ev =
          (Inr ((x0, x1), (y0, y1)), ev)"
    by (simp add: get_fig_xy_range_kw is_fig_def)
qed

theorem get_fig_xy_range_data_bounds_witness:
  "get_fig_xy_range [] [(''fig'', PlotlyFigure fig_sample)] env_sample =
     (Inr ((Fin 0, Fin 10), (Fin 0, Fin 5)), env_sample)
   \<and> get_fig_xy_range [] [(''fig'', PlotlyFigure fig_sample)]
       (env_sample\<lparr>full_figure_for_development := \<lambda>f. Inr (dev_sample\<lparr>dev_xaxis_type := None\<rparr>)\<rparr>) =
     (Inr ((Fin 0, Fin 2), (Fin 0, Fin 5)),
      env_sample\<lparr>full_figure_for_development := \<lambda>f. Inr (dev_sample\<lparr>dev_xaxis_type := None\<rparr>)\<rparr>)"
proof -
  let ?t = "trace_sample (Ref ''x'')"
  let ?rows = "[(Fin 0, Fin 0), (Fin 10, Fin 5)]"
  let ?ev = "env_sample\<lparr>full_figure_for_development := \<lambda>f. Inr (dev_sample\<lparr>dev_xaxis_type := None\<rparr>)\<rparr>"
  have h: "full_figure_for_development env_sample fig_sample = Inl ValueError
      \<and> xaxis_type fig_sample \<noteq> Some ''log'' \<and> yaxis_type fig_sample \<noteq> Some ''log''
      \<and> py_index (data fig_sample) 0 = Inr ?t \<and> dropna_xy ?t = Inr ?rows
      \<and> is_least (Fin 0) (map fst ?rows) \<and> is_greatest (Fin 10) (map fst ?rows)
      \<and> is_least (Fin 0) (map snd ?rows) \<and> is_greatest (Fin 5) (map snd ?rows)"
    by (simp add: sample_defs range_defs is_least_def is_greatest_def)
  have g: "full_figure_for_development ?ev fig_sample = Inr (dev_sample\<lparr>dev_xaxis_type := None\<rparr>)
      \<and> dev_xaxis_type (dev_sample\<lparr>dev_xaxis_type := None\<rparr>) \<noteq> Some ''log''
      \<and> dev_yaxis_type (dev_sample\<lparr>dev_xaxis_type := None\<rparr>) \<noteq> Some ''log''"
    by (simp add: dev_sample_def)
  show ?thesis
    using get_fig_xy_range_data_bounds[of ax_sample env_sample "plt_gcf env_sample" fig_sample
        dev_sample 0 ?t ?rows "Fin 0" "Fin 10" "Fin 0" "Fin 5"] h
      get_fig_xy_range_data_bounds[of ax_sample ?ev "plt_gcf env_sample" fig_sample
        "dev_sample\<lparr>dev_xaxis_type := None\<rparr>" 0 ?t ?rows "Fin 0" "Fin 10" "Fin 0" "Fin 5"] g
    by (simp add: dev_sample_def)
qed

text \<open>
  The claim C5 as the spec states it fails: \<open>ax_sample\<close> shows data that spans exactly
  \<open>[0, 10]\<close> and \<open>[0, 5]\<close> on linear axes, and \<open>get_fig_xy_range\<close> returns its view limits
  \<open>((-0.5, 10.5), (-0.25, 5.25))\<close>.
\<close>

theorem get_fig_xy_range_not_data_bounds:
  "is_least (Fin 0) (concat (map fst (lines ax_sample)))
   \<and> is_greatest (Fin 10) (concat (map fst (lines ax_sample)))
   \<and> is_least (Fin 0) (concat (map snd (lines ax_sample)))
   \<and> is_greatest (Fin 5) (concat (map snd (lines ax_sample)))
   \<and> get_fig_xy_range [] [(''fig'', MplAxes ax_sample)] env_sample =
       (Inr ((Fin (- 1 / 2), Fin (21 / 2)), (Fin (- 1 / 4), Fin (21 / 4))), env_sample)
   \<and> get_fig_xy_range [] [(''fig'', MplAxes ax_sample)] env_sample \<noteq>
       (Inr ((Fin 0, Fin 10), (Fin 0, Fin 5)), env_sample)"
  by (simp add: get_fig_xy_range_default_idx get_fig_xy_range_kw is_fig_def
      get_fig_xy_range_body_def ax_sample_def is_least_def is_greatest_def fgt_def)


section \<open>Annotation\<close>

lemma annotation_props_no_text:
  "kwargs_ok kwargs \<Longrightarrow> ''text'' \<notin> dom (annotation_props fc kwargs)"
proof -
  assume k: "kwargs_ok kwargs"
  have "''text'' \<notin> fst ` set kwargs"
    using k by (auto simp: kwargs_ok_def list_ex_iff)
  then have "map_of (filter (\<lambda>(k, v). k \<noteq> ''color'') kwargs) ''text'' = None"
    by (auto simp: map_of_eq_None_iff)
  then show ?thesis
    by (auto simp: annotation_props_def text_defaults_def map_add_def split: option.splits)
qed

lemma add_annotation_facet:
  "''text'' \<notin> dom props \<Longrightarrow>
   add_annotation s ([''xref'' \<mapsto> PStr (domain_ref ''x'' (drop 1 r)),
                     ''yref'' \<mapsto> PStr (domain_ref ''y'' (drop 1 r))] ++ props) fig =
     Inr (fig\<lparr>annotations := annotations fig @ [facet_annotation props r s]\<rparr>)"
  by (simp add: add_annotation_def facet_annotation_def domain_ref_def)

lemma annotate_traces_seq:
  assumes "''text'' \<notin> dom props"
  shows "idx + length ts \<le> length ss \<Longrightarrow>
     \<forall>(t, s)\<in>set (zip ts (drop idx ss)). s \<noteq> [] \<longrightarrow> has_ref t \<Longrightarrow>
     annotate_traces (TextSeq ss) props idx ts fig =
       (None, fig\<lparr>annotations := annotations fig @ facet_annotations props ts (drop idx ss)\<rparr>)"
proof (induction ts arbitrary: idx fig)
  case Nil
  then show ?case by (simp add: facet_annotations_def)
next
  case (Cons t ts)
  have lt: "idx < length ss" using Cons.prems(1) by simp
  have d: "drop idx ss = ss ! idx # drop (Suc idx) ss" using lt by (simp add: Cons_nth_drop_Suc)
  have le: "Suc idx + length ts \<le> length ss" using Cons.prems(1) by simp
  have rest: "\<forall>(t, s)\<in>set (zip ts (drop (Suc idx) ss)). s \<noteq> [] \<longrightarrow> has_ref t"
    using Cons.prems(2) by (auto simp: d)
  note ih = Cons.IH[OF le rest]
  show ?case
  proof (cases "ss ! idx = []")
    case True
    then show ?thesis using lt ih by (simp add: d facet_annotations_def)
  next
    case False
    then have "has_ref t" using Cons.prems(2) by (auto simp: d)
    then obtain r where r: "xaxis t = Ref r" by (auto simp: has_ref_def split: xaxis_attr.splits)
    show ?thesis
      using lt False r ih add_annotation_facet[OF assms]
      by (simp add: d facet_annotations_def the_ref_def)
  qed
qed

lemma annotate_traces_str:
  assumes "''text'' \<notin> dom props"
  shows "(s \<noteq> [] \<longrightarrow> (\<forall>t\<in>set ts. has_ref t)) \<Longrightarrow>
     annotate_traces (TextStr s) props idx ts fig =
       (None, fig\<lparr>annotations := annotations fig
                    @ facet_annotations props ts (replicate (length ts) s)\<rparr>)"
proof (induction ts arbitrary: idx fig)
  case Nil
  then show ?case by (simp add: facet_annotations_def)
next
  case (Cons t ts)
  have rest: "s \<noteq> [] \<longrightarrow> (\<forall>t\<in>set ts. has_ref t)" using Cons.prems by simp
  note ih = Cons.IH[OF rest]
  show ?case
  proof (cases "s = []")
    case True
    then show ?thesis using ih by (simp add: facet_annotations_def)
  next
    case False
    then have "has_ref t" using Cons.prems by simp
    then obtain r where r: "xaxis t = Ref r" by (auto simp: has_ref_def split: xaxis_attr.splits)
    show ?thesis
      using False r ih add_annotation_facet[OF assms]
      by (simp add: facet_annotations_def the_ref_def)
  qed
qed

lemma annotate_plotly:
  "kwargs_ok kwargs \<Longrightarrow>
   annotate ev text (PlotlyFigure f) kwargs =
     (if is_faceted f then
        (case annotate_traces text (annotation_props (get_plotly_font_color ev f) kwargs) 0
                (data f) f of (r, f') \<Rightarrow> (r, PlotlyFigure f', ev))
      else (case text of
          TextSeq _ \<Rightarrow> (Some ValueError, PlotlyFigure f, ev)
        | TextStr s \<Rightarrow>
           (case add_annotation s
                   ([''xref'' \<mapsto> PStr ''paper'', ''yref'' \<mapsto> PStr ''paper'']
                    ++ annotation_props (get_plotly_font_color ev f) kwargs) f of
              Inl e \<Rightarrow> (Some e, PlotlyFigure f, ev)
            | Inr f' \<Rightarrow> (None, PlotlyFigure f', ev))))"
  by (simp add: annotate_def kwargs_ok_def get_font_color_def annotation_props_def Let_def
      split: text_arg.splits)

lemma map_of_filter_other:
  "k \<noteq> c \<Longrightarrow> map_of (filter (\<lambda>(k', v). k' \<noteq> c) kw) k = map_of kw k"
  by (induction kw) auto

lemma facet_annotation_text: "facet_annotation props r s ''text'' = Some (PStr s)"
  by (simp add: facet_annotation_def)

lemma facet_annotation_xref:
  "facet_annotation (annotation_props fc kwargs) r s ''xref'' =
     (case map_of kwargs ''xref'' of Some v \<Rightarrow> Some v
      | None \<Rightarrow> Some (PStr (if drop 1 r = [] then ''x domain''
                             else ''x'' @ drop 1 r @ '' domain'')))"
  by (simp add: facet_annotation_def annotation_props_def text_defaults_def map_add_def
      map_of_filter_other split: option.splits)

lemma facet_annotation_yref:
  "facet_annotation (annotation_props fc kwargs) r s ''yref'' =
     (case map_of kwargs ''yref'' of Some v \<Rightarrow> Some v
      | None \<Rightarrow> Some (PStr (if drop 1 r = [] then ''y domain''
                             else ''y'' @ drop 1 r @ '' domain'')))"
  by (simp add: facet_annotation_def annotation_props_def text_defaults_def map_add_def
      map_of_filter_other split: option.splits)

lemma annotate_faceted_seq:
  assumes "kwargs_ok kwargs" "is_faceted f" "length (data f) \<le> length ss"
    "\<forall>(t, s)\<in>set (zip (data f) ss). s \<noteq> [] \<longrightarrow> has_ref t"
  shows "annotate ev (TextSeq ss) (PlotlyFigure f) kwargs =
     (None, PlotlyFigure (f\<lparr>annotations := annotations f @ facet_annotations
        (annotation_props (get_plotly_font_color ev f) kwargs) (data f) ss\<rparr>), ev)"
proof -
  have p: "''text'' \<notin> dom (annotation_props (get_plotly_font_color ev f) kwargs)"
    by (rule annotation_props_no_text[OF assms(1)])
  have "annotate_traces (TextSeq ss) (annotation_props (get_plotly_font_color ev f) kwargs) 0
      (data f) f = (None, f\<lparr>annotations := annotations f @ facet_annotations
        (annotation_props (get_plotly_font_color ev f) kwargs) (data f) (drop 0 ss)\<rparr>)"
    by (rule annotate_traces_seq[OF p]) (use assms(3,4) in simp_all)
  then show ?thesis by (simp add: annotate_plotly[OF assms(1)] assms(2))
qed

lemma annotate_faceted_str:
  assumes "kwargs_ok kwargs" "is_faceted f" "s \<noteq> [] \<longrightarrow> (\<forall>t\<in>set (data f). has_ref t)"
  shows "annotate ev (TextStr s) (PlotlyFigure f) kwargs =
     (None, PlotlyFigure (f\<lparr>annotations := annotations f @ facet_annotations
        (annotation_props (get_plotly_font_color ev f) kwargs) (data f)
        (replicate (length (data f)) s)\<rparr>), ev)"
proof -
  have p: "''text'' \<notin> dom (annotation_props (get_plotly_font_color ev f) kwargs)"
    by (rule annotation_props_no_text[OF assms(1)])
  from annotate_traces_str[OF p assms(3), of 0 f]
  show ?thesis by (simp add: annotate_plotly[OF assms(1)] assms(2))
qed

lemma faceted_sample_faceted: "is_faceted faceted_sample"
  by (simp add: is_faceted_def sample_defs)

lemma faceted_sample_refs: "\<forall>t\<in>set (data faceted_sample). has_ref t"
  by (simp add: has_ref_def sample_defs)

text \<open>
  C7. On a plotly figure that is not faceted, a \<open>text\<close> that is a sequence of strings
  makes \<open>annotate\<close> raise \<open>ValueError\<close>, and the figure is left as it was: no annotation is
  added.
\<close>

theorem annotate_non_faceted_sequence:
  "kwargs_ok kwargs \<Longrightarrow> \<not> is_faceted f \<Longrightarrow>
   annotate ev (TextSeq ss) (PlotlyFigure f) kwargs = (Some ValueError, PlotlyFigure f, ev)"
  by (simp add: annotate_plotly)

theorem annotate_non_faceted_sequence_witness:
  "kwargs_ok [] \<and> \<not> is_faceted fig_sample
   \<and> annotate env_sample (TextSeq [''a'', ''b'']) (PlotlyFigure fig_sample) [] =
       (Some ValueError, PlotlyFigure fig_sample, env_sample)"
proof -
  have h: "kwargs_ok []" "\<not> is_faceted fig_sample"
    by (simp_all add: kwargs_ok_def is_faceted_def sample_defs)
  from annotate_non_faceted_sequence[OF h, of env_sample "[''a'', ''b'']"] h
  show ?thesis by simp
qed

text \<open>
  C3, as the code has it. On a faceted plotly figure, with a \<open>text\<close> that is a sequence
  at least as long as the list of traces, \<open>annotate\<close> adds one annotation for each trace
  whose aligned entry is not the empty string, in the order of the traces, and none for a
  trace whose entry is empty (here every trace that gets an annotation carries an x-axis
  reference). The text may also be one string, which is then used for every trace. The
  \<open>xref\<close> and \<open>yref\<close> of an annotation are derived from the x-axis reference of its trace
  (\<open>x domain\<close>, \<open>y domain\<close> for the reference \<open>x\<close>; \<open>x2 domain\<close>, \<open>y2 domain\<close> for \<open>x2\<close>)
  unless the caller gives \<open>xref\<close> or \<open>yref\<close> as a keyword argument, which then wins.
\<close>

theorem annotate_faceted:
  "(kwargs_ok kwargs \<and> is_faceted f \<and> length (data f) \<le> length ss
      \<and> (\<forall>(t, s)\<in>set (zip (data f) ss). s \<noteq> [] \<longrightarrow> has_ref t) \<longrightarrow>
      annotate ev (TextSeq ss) (PlotlyFigure f) kwargs =
        (None, PlotlyFigure (f\<lparr>annotations := annotations f @ facet_annotations
           (annotation_props (get_plotly_font_color ev f) kwargs) (data f) ss\<rparr>), ev))
   \<and> (kwargs_ok kwargs \<and> is_faceted f \<and> (s \<noteq> [] \<longrightarrow> (\<forall>t\<in>set (data f). has_ref t)) \<longrightarrow>
        annotate ev (TextStr s) (PlotlyFigure f) kwargs =
          (None, PlotlyFigure (f\<lparr>annotations := annotations f @ facet_annotations
             (annotation_props (get_plotly_font_color ev f) kwargs) (data f)
             (replicate (length (data f)) s)\<rparr>), ev))
   \<and> length (facet_annotations props ts subs) = length (filter (\<lambda>(t, s). s \<noteq> []) (zip ts subs))
   \<and> facet_annotation props r s ''text'' = Some (PStr s)
   \<and> facet_annotation (annotation_props fc kwargs) r s ''xref'' =
       (case map_of kwargs ''xref'' of Some v \<Rightarrow> Some v
        | None \<Rightarrow> Some (PStr (if drop 1 r = [] then ''x domain''
                               else ''x'' @ drop 1 r @ '' domain'')))
   \<and> facet_annotation (annotation_props fc kwargs) r s ''yref'' =
       (case map_of kwargs ''yref'' of Some v \<Rightarrow> Some v
        | None \<Rightarrow> Some (PStr (if drop 1 r = [] then ''y domain''
                               else ''y'' @ drop 1 r @ '' domain'')))"
  using annotate_faceted_seq[of kwargs f ss ev] annotate_faceted_str[of kwargs f s ev]
    facet_annotation_text[of props r s] facet_annotation_xref[of fc kwargs r s]
    facet_annotation_yref[of fc kwargs r s]
  by (simp add: facet_annotations_def)

theorem annotate_faceted_witness:
  "prop_values ''text''
      (annotate env_sample (TextSeq [''a'', '''', ''c'']) (PlotlyFigure faceted_sample) []) =
     [Some (PStr ''a'')]
   \<and> prop_values ''xref''
      (annotate env_sample (TextSeq [''a'', ''b'']) (PlotlyFigure faceted_sample) []) =
     [Some (PStr ''x domain''), Some (PStr ''x2 domain'')]
   \<and> prop_values ''yref''
      (annotate env_sample (TextSeq [''a'', ''b'']) (PlotlyFigure faceted_sample) []) =
     [Some (PStr ''y domain''), Some (PStr ''y2 domain'')]
   \<and> fst (annotate env_sample (TextSeq [''a'', ''b'']) (PlotlyFigure faceted_sample) []) = None"
proof -
  have k: "kwargs_ok []" by (simp add: kwargs_ok_def)
  have d: "data faceted_sample = [trace_sample (Ref ''x''), trace_sample (Ref ''x2'')]"
    by (simp add: sample_defs)
  have h1: "kwargs_ok [] \<and> is_faceted faceted_sample
      \<and> length (data faceted_sample) \<le> length [''a'', '''', ''c'']
      \<and> (\<forall>(t, s)\<in>set (zip (data faceted_sample) [''a'', '''', ''c'']). s \<noteq> [] \<longrightarrow> has_ref t)"
    using faceted_sample_faceted k by (simp add: d has_ref_def trace_sample_def)
  have h2: "kwargs_ok [] \<and> is_faceted faceted_sample
      \<and> length (data faceted_sample) \<le> length [''a'', ''b'']
      \<and> (\<forall>(t, s)\<in>set (zip (data faceted_sample) [''a'', ''b'']). s \<noteq> [] \<longrightarrow> has_ref t)"
    using faceted_sample_faceted k by (simp add: d has_ref_def trace_sample_def)
  note a = annotate_faceted[where kwargs = "[]" and f = faceted_sample
      and ss = "[''a'', '''', ''c'']" and ev = env_sample and s = "''note''" and ts = "[]"
      and subs = "[]" and r = "''x2''" and fc = "''black''"
      and props = "annotation_props ''black'' []"]
  note b = annotate_faceted[where kwargs = "[]" and f = faceted_sample
      and ss = "[''a'', ''b'']" and ev = env_sample and s = "''note''" and ts = "[]"
      and subs = "[]" and r = "''x2''" and fc = "''black''"
      and props = "annotation_props ''black'' []"]
  have 1: "annotate env_sample (TextSeq [''a'', '''', ''c'']) (PlotlyFigure faceted_sample) [] =
      (None, PlotlyFigure (faceted_sample\<lparr>annotations := annotations faceted_sample
         @ facet_annotations (annotation_props (get_plotly_font_color env_sample faceted_sample) [])
             (data faceted_sample) [''a'', '''', ''c'']\<rparr>), env_sample)"
    using a h1 by blast
  have 2: "annotate env_sample (TextSeq [''a'', ''b'']) (PlotlyFigure faceted_sample) [] =
      (None, PlotlyFigure (faceted_sample\<lparr>annotations := annotations faceted_sample
         @ facet_annotations (annotation_props (get_plotly_font_color env_sample faceted_sample) [])
             (data faceted_sample) [''a'', ''b'']\<rparr>), env_sample)"
    using b h2 by blast
  have e: "annotations faceted_sample = []" by (simp add: sample_defs)
  show ?thesis
    unfolding 1 2 prop_values_def result_annotations_def
    by (simp add: e d facet_annotations_def the_ref_def trace_sample_def facet_annotation_text
        facet_annotation_xref facet_annotation_yref)
qed

text \<open>
  The claim C3 as the spec states it fails in two places. A single string is accepted
  on a faceted figure and is attached to every trace, so the text need not be a
  sequence; and a keyword argument \<open>xref\<close> of the caller replaces the reference axis that
  is derived from the trace.
\<close>

theorem annotate_faceted_not_only_sequence:
  "is_faceted faceted_sample
   \<and> fst (annotate env_sample (TextStr ''note'') (PlotlyFigure faceted_sample) []) = None
   \<and> prop_values ''text''
       (annotate env_sample (TextStr ''note'') (PlotlyFigure faceted_sample) []) =
       [Some (PStr ''note''), Some (PStr ''note'')]
   \<and> fst (annotate env_sample (TextSeq [''a'', ''b'']) (PlotlyFigure faceted_sample)
         [(''xref'', PStr ''paper'')]) = None
   \<and> prop_values ''xref''
       (annotate env_sample (TextSeq [''a'', ''b'']) (PlotlyFigure faceted_sample)
         [(''xref'', PStr ''paper'')]) =
       [Some (PStr ''paper''), Some (PStr ''paper'')]"
proof -
  have k: "kwargs_ok []" "kwargs_ok [(''xref'', PStr ''paper'')]" by (simp_all add: kwargs_ok_def)
  have d: "data faceted_sample = [trace_sample (Ref ''x''), trace_sample (Ref ''x2'')]"
    by (simp add: sample_defs)
  have e: "annotations faceted_sample = []" by (simp add: sample_defs)
  have r: "''note'' \<noteq> [] \<longrightarrow> (\<forall>t\<in>set (data faceted_sample). has_ref t)"
    using faceted_sample_refs by simp
  have z: "\<forall>(t, s)\<in>set (zip (data faceted_sample) [''a'', ''b'']). s \<noteq> [] \<longrightarrow> has_ref t"
    by (simp add: d has_ref_def trace_sample_def)
  have l: "length (data faceted_sample) \<le> length [''a'', ''b'']" by (simp add: d)
  note 1 = annotate_faceted_str[OF k(1) faceted_sample_faceted r, of env_sample]
  note 2 = annotate_faceted_seq[OF k(2) faceted_sample_faceted l z, of env_sample]
  show ?thesis
    unfolding 1 2 prop_values_def result_annotations_def
    by (simp add: faceted_sample_faceted e d facet_annotations_def the_ref_def trace_sample_def
        facet_annotation_text facet_annotation_xref)
qed

text \<open>
  C10. On a faceted plotly figure with \<open>text\<close> a single string that is not empty the
  call is meant to attach the string once per trace. The code fails to: with a trace whose
  \<open>xaxis\<close> is unset, which the test for a faceted figure allows for, the loop raises
  \<open>TypeError\<close> at \<open>trace.xaxis[1:]\<close> and no annotation is attached.
\<close>

theorem annotate_faceted_string_unset_xaxis:
  "is_faceted mixed_sample
   \<and> annotate env_sample (TextStr ''note'') (PlotlyFigure mixed_sample) [] =
       (Some TypeError, PlotlyFigure mixed_sample, env_sample)"
  by (simp add: annotate_def get_font_color_def is_faceted_def sample_defs)

end
